theory Spec2Isabelle
  imports Complex_Main
begin

section \<open>JavaScript values\<close>

text \<open>
  The request handlers (\<^verbatim>\<open>functions/ai.js\<close> and its image-only sibling, the source file
  whose name is not recorded, called \<^verbatim>\<open>part_000\<close> here) and the browser client
  (\<^verbatim>\<open>src/App.jsx\<close>) are JavaScript. Their values are modelled by one datatype. A number is
  the value of a double: a rational, \<open>NaN\<close> or an infinity (the sign of a zero is not kept; no
  statement below reads it). Arithmetic rounds its exact result to the nearest double
  (\<open>to_double\<close> below). A string is the list of its code units, for the strings whose code
  units are all below 256; an uploaded \<^verbatim>\<open>File\<close> is a host object with a name, a MIME type and
  its bytes.
\<close>

datatype jsfile = File (fname: string) (ftype: string) (fbytes: string)

datatype jsnum = NaN | Num rat | PosInf | NegInf

datatype jsval =
    JUndefined
  | JNull
  | JBool bool
  | JNum jsnum
  | JStr string
  | JArr "jsval list"
  | JObj "(string \<times> jsval) list"
  | JFile jsfile

text \<open>\<^verbatim>\<open>!x\<close> is \<open>\<not> truthy x\<close>.\<close>

fun truthy :: "jsval \<Rightarrow> bool" where
  "truthy JUndefined = False"
| "truthy JNull = False"
| "truthy (JBool b) = b"
| "truthy (JNum NaN) = False"
| "truthy (JNum (Num r)) = (r \<noteq> 0)"
| "truthy (JNum PosInf) = True"
| "truthy (JNum NegInf) = True"
| "truthy (JStr s) = (s \<noteq> [])"
| "truthy (JArr xs) = True"
| "truthy (JObj kvs) = True"
| "truthy (JFile f) = True"

text \<open>\<^verbatim>\<open>a || b\<close>\<close>

definition js_or :: "jsval \<Rightarrow> jsval \<Rightarrow> jsval" where
  "js_or a b = (if truthy a then a else b)"

text \<open>
  Reading a property of a value that is neither \<^verbatim>\<open>null\<close> nor \<^verbatim>\<open>undefined\<close>. Only the
  property names the handlers read are looked up (\<^verbatim>\<open>action\<close>, \<^verbatim>\<open>prompt\<close>, \<^verbatim>\<open>taskId\<close>,
  \<^verbatim>\<open>type\<close>, ...); none of them is a built-in property of a string, number, boolean or array,
  so those values answer \<^verbatim>\<open>undefined\<close>.
\<close>

fun get_prop :: "jsval \<Rightarrow> string \<Rightarrow> jsval" where
  "get_prop (JObj kvs) k = (case map_of kvs k of None \<Rightarrow> JUndefined | Some v \<Rightarrow> v)"
| "get_prop v k = JUndefined"

text \<open>\<^verbatim>\<open>haystack.includes(needle)\<close>\<close>

fun starts_with :: "string \<Rightarrow> string \<Rightarrow> bool" where
  "starts_with s [] = True"
| "starts_with [] (p # ps) = False"
| "starts_with (c # cs) (p # ps) = (c = p \<and> starts_with cs ps)"

fun str_includes :: "string \<Rightarrow> string \<Rightarrow> bool" where
  "str_includes [] p = (p = [])"
| "str_includes (c # cs) p = (starts_with (c # cs) p \<or> str_includes cs p)"

subsection \<open>Doubles\<close>

text \<open>The number of binary digits of a natural number.\<close>

fun bit_length :: "nat \<Rightarrow> nat" where
  "bit_length n = (if n = 0 then 0 else Suc (bit_length (n div 2)))"

declare bit_length.simps [simp del]

text \<open>The binary exponent of a positive rational \<open>a\<close>: \<open>2\<^sup>e \<le> a < 2\<^sup>e\<^sup>+\<^sup>1\<close>.\<close>

definition ilog2 :: "rat \<Rightarrow> int" where
  "ilog2 a = (if 1 \<le> a then int (bit_length (nat \<lfloor>a\<rfloor>)) - 1
              else - int (bit_length (nat (\<lceil>1 / a\<rceil> - 1))))"

definition round_half_even :: "rat \<Rightarrow> int" where
  "round_half_even y =
     (let f = \<lfloor>y\<rfloor>; d = y - of_int f
      in if d < 1 / 2 then f else if 1 / 2 < d then f + 1 else if even f then f else f + 1)"

text \<open>
  The double nearest to an exact result, a tie going to the even significand (IEEE 754
  binary64, the rounding of every arithmetic operation of the engine): 53 significant bits,
  the spacing of the subnormals below \<open>2\<^sup>-\<^sup>1\<^sup>0\<^sup>2\<^sup>2\<close>, an infinity when the rounded magnitude
  reaches \<open>2\<^sup>1\<^sup>0\<^sup>2\<^sup>4\<close>.
\<close>

definition to_double :: "rat \<Rightarrow> jsnum" where
  "to_double x =
     (if x = 0 then Num 0
      else
        (let a = \<bar>x\<bar>; e = ilog2 a; q = max (e - 52) (- 1074);
             n = round_half_even (a / 2 powi q)
         in if 1024 \<le> e \<or> (e = 1023 \<and> n = 9007199254740992)
            then (if 0 < x then PosInf else NegInf)
            else Num ((if 0 < x then 1 else - 1) * of_int n * 2 powi q)))"

text \<open>The rationals that are doubles.\<close>

definition is_double :: "rat \<Rightarrow> bool" where
  "is_double r = (to_double r = Num r)"

text \<open>\<^verbatim>\<open>Math.floor\<close>\<close>

definition js_floor :: "jsnum \<Rightarrow> jsnum" where
  "js_floor v = (case v of Num y \<Rightarrow> Num (of_int \<lfloor>y\<rfloor>) | _ \<Rightarrow> v)"

subsection \<open>Numbers and text\<close>

definition digit_char :: "nat \<Rightarrow> char" where
  "digit_char d = ''0123456789'' ! (d mod 10)"

text \<open>The decimal text of a status code, as a template literal renders it.\<close>

fun show_nat :: "nat \<Rightarrow> string" where
  "show_nat n = (if n < 10 then [digit_char n] else show_nat (n div 10) @ [digit_char n])"

declare show_nat.simps [simp del]

text \<open>
  The white space and line terminators that \<^verbatim>\<open>parseInt\<close> and \<^verbatim>\<open>trim\<close> strip, among the
  code units below 256: space, tab, line feed, vertical tab, form feed, carriage return and
  the no-break space U+00A0. (The others, U+1680, U+2000 to U+200A, U+2028, U+2029, U+202F,
  U+205F, U+3000 and U+FEFF, are code units above 255.)
\<close>

definition is_ws :: "char \<Rightarrow> bool" where
  "is_ws c = (c \<in> set [CHR 0x20, CHR 0x09, CHR 0x0A, CHR 0x0B, CHR 0x0C, CHR 0x0D, CHR 0xA0])"

definition is_digit :: "char \<Rightarrow> bool" where
  "is_digit c = (48 \<le> (of_char c :: nat) \<and> (of_char c :: nat) \<le> 57)"

text \<open>The value of a run of decimal digits (only applied to characters that are digits).\<close>

definition digits_value :: "string \<Rightarrow> nat" where
  "digits_value ds = foldl (\<lambda>acc c. 10 * acc + (of_char c - 48)) 0 ds"

text \<open>
  \<^verbatim>\<open>parseInt(s, 10)\<close> on a string: leading white space is skipped, one sign is read, then
  the longest run of decimal digits. No digit gives \<open>NaN\<close>; otherwise the result is the double
  nearest to the signed integer that the digits denote.
\<close>

definition strip_sign :: "string \<Rightarrow> bool \<times> string" where
  "strip_sign t =
     (case t of
        [] \<Rightarrow> (False, [])
      | c # r \<Rightarrow> if c = CHR ''-'' then (True, r)
                 else if c = CHR ''+'' then (False, r)
                 else (False, t))"

definition parseInt10 :: "string \<Rightarrow> jsnum" where
  "parseInt10 s =
     (let (neg, u) = strip_sign (dropWhile is_ws s);
          ds = takeWhile is_digit u
      in if ds = [] then NaN
         else to_double (of_int ((if neg then - 1 else 1) * int (digits_value ds))))"

text \<open>The strings \<^verbatim>\<open>parseInt(s, 10)\<close> can read as a decimal integer: a digit follows the
  optional white space and sign.\<close>

definition decimal_integer_prefix :: "string \<Rightarrow> bool" where
  "decimal_integer_prefix s =
     (case snd (strip_sign (dropWhile is_ws s)) of [] \<Rightarrow> False | c # r \<Rightarrow> is_digit c)"

text \<open>
  \<^verbatim>\<open>parseInt(v, 10)\<close> on any value: the value is converted to a string first. A finite number
  prints its integer part first (exact for magnitudes between \<open>10\<^sup>-\<^sup>6\<close> and \<open>10\<^sup>2\<^sup>1\<close>, where the
  engine does not switch to exponent notation), an array prints its first element first,
  every other value prints text without a leading digit.
\<close>

fun parseInt_of :: "jsval \<Rightarrow> jsnum" where
  "parseInt_of (JStr s) = parseInt10 s"
| "parseInt_of (JNum NaN) = NaN"
| "parseInt_of (JNum (Num r)) = Num (of_int (if 0 \<le> r then \<lfloor>r\<rfloor> else \<lceil>r\<rceil>))"
| "parseInt_of (JArr []) = NaN"
| "parseInt_of (JArr (x # xs)) = parseInt_of x"
| "parseInt_of v = NaN"

text \<open>
  \<^verbatim>\<open>JSON.stringify\<close>, up to the rendering as text: the result is the JSON document that the
  text denotes. Properties whose value is \<^verbatim>\<open>undefined\<close> are dropped, \<open>NaN\<close>, the infinities
  and an \<^verbatim>\<open>undefined\<close> array element become \<^verbatim>\<open>null\<close>, a \<^verbatim>\<open>File\<close> has no own enumerable
  property.
\<close>

fun JSON_stringify :: "jsval \<Rightarrow> jsval" where
  "JSON_stringify (JNum NaN) = JNull"
| "JSON_stringify (JNum PosInf) = JNull"
| "JSON_stringify (JNum NegInf) = JNull"
| "JSON_stringify (JArr xs) =
     JArr (map (\<lambda>x. if x = JUndefined then JNull else JSON_stringify x) xs)"
| "JSON_stringify (JObj kvs) =
     JObj (map (\<lambda>(k, v). (k, JSON_stringify v)) (filter (\<lambda>(k, v). v \<noteq> JUndefined) kvs))"
| "JSON_stringify (JFile f) = JObj []"
| "JSON_stringify v = v"

text \<open>
  \<^verbatim>\<open>btoa(String.fromCharCode(...bytes))\<close>: the bytes are the characters of the binary string
  already, and \<^verbatim>\<open>btoa\<close> is base64 with padding.
\<close>

definition b64_char :: "nat \<Rightarrow> char" where
  "b64_char n =
     ''ABCDEFGHIJKLMNOPQRSTUVWXYZabcdefghijklmnopqrstuvwxyz0123456789+/'' ! (n mod 64)"

fun btoa :: "string \<Rightarrow> string" where
  "btoa [] = []"
| "btoa [a] =
     (let x = of_char a :: nat
      in [b64_char (x div 4), b64_char ((x mod 4) * 16), CHR ''='', CHR ''=''])"
| "btoa [a, b] =
     (let x = of_char a :: nat; y = of_char b :: nat
      in [b64_char (x div 4), b64_char ((x mod 4) * 16 + y div 16),
          b64_char ((y mod 16) * 4), CHR ''=''])"
| "btoa (a # b # c # rest) =
     (let x = of_char a :: nat; y = of_char b :: nat; z = of_char c :: nat
      in [b64_char (x div 4), b64_char ((x mod 4) * 16 + y div 16),
          b64_char ((y mod 16) * 4 + z div 64), b64_char (z mod 64)] @ btoa rest)"

section \<open>The request handlers\<close>

subsection \<open>Requests, environment, upstream answers\<close>

text \<open>
  A request carries its method, its \<^verbatim>\<open>content-type\<close> header (absent: \<open>None\<close>) and what the
  two body readers resolve to: \<^verbatim>\<open>request.formData()\<close> gives the form entries (a string or a
  \<^verbatim>\<open>File\<close> each), \<^verbatim>\<open>request.json()\<close> the parsed value, and either rejects with a message
  (\<open>Inl\<close>) on a body it cannot read.
\<close>

record request =
  req_method :: string
  content_type :: "string option"
  formData :: "string + (string \<times> jsval) list"
  json :: "string + jsval"

text \<open>
  The environment: the upstream credential and the optional key-value binding. The store
  maps a key to the record saved under it (the handler saves \<^verbatim>\<open>JSON.stringify\<close> of the record
  and reads it back with \<^verbatim>\<open>{type: 'json'}\<close>; the model keeps the record). Store operations are
  taken to succeed whenever the binding is configured.
\<close>

record env =
  RUNWAYML_API_KEY :: "string option"
  TASK_INFO_KV :: "(jsval \<rightharpoonup> jsval) option"

text \<open>
  What the upstream API answers: status line and JSON body. The body is read at the schema
  the handlers use: \<^verbatim>\<open>error\<close>, \<^verbatim>\<open>id\<close> and \<^verbatim>\<open>status\<close> are strings, \<^verbatim>\<open>progress\<close> a number,
  \<^verbatim>\<open>output\<close> an array of strings; an absent property is \<open>None\<close>. \<^verbatim>\<open>response.json()\<close> rejects
  with a message (\<open>Inl\<close>) when the body is not JSON.
\<close>

record task_data =
  d_error :: "string option"
  d_id :: "string option"
  d_status :: "string option"
  d_progress :: "rat option"
  d_output :: "string list option"

record upstream_response =
  http_status :: nat
  statusText :: string
  json_body :: "string + task_data"

text \<open>\<^verbatim>\<open>response.ok\<close>\<close>

definition ok :: "upstream_response \<Rightarrow> bool" where
  "ok r = (200 \<le> http_status r \<and> http_status r \<le> 299)"

text \<open>
  Everything else a run of the handler depends on: the outcome of its one \<^verbatim>\<open>fetch\<close> (\<open>Inl\<close>:
  the call rejects, a network failure), the value of \<^verbatim>\<open>Math.random()\<close>, and the engine's
  limit on the number of arguments of one call, which \<^verbatim>\<open>String.fromCharCode(...bytes)\<close> in
  \<^verbatim>\<open>functions/ai.js\<close> can exceed.
\<close>

record world =
  fetch_result :: "string + upstream_response"
  random :: rat
  arg_limit :: nat

subsection \<open>Responses and effects\<close>

text \<open>
  A response is its status, the headers the handler sets and its body. The handlers' effects
  are the upstream calls, the store operations and the work handed to \<^verbatim>\<open>context.waitUntil\<close>;
  console logging is left out.
\<close>

datatype body = No_body | Text string | Json jsval

record response =
  res_status :: nat
  res_headers :: "(string \<times> string) list"
  res_body :: body

datatype endpoint = Text_to_image | Image_to_video | Tasks jsval

text \<open>One call of the upstream API: endpoint, HTTP method, the \<^verbatim>\<open>Authorization\<close> header and
  the JSON body sent (none on a status read).\<close>

record upstream_call =
  endpoint :: endpoint
  verb :: string
  authorization :: string
  payload :: "jsval option"

text \<open>
  A run of the handler: what it returns or throws inside its \<^verbatim>\<open>try\<close> block, the upstream
  calls it made, the store as the awaited operations left it, and the keys whose deletion was
  handed to \<^verbatim>\<open>context.waitUntil\<close> (started, not awaited).
\<close>

record attempt =
  result :: "string + response"
  calls :: "upstream_call list"
  kv :: "(jsval \<rightharpoonup> jsval) option"
  deferred :: "jsval list"

record outcome =
  reply :: response
  upstream :: "upstream_call list"
  kv_after :: "(jsval \<rightharpoonup> jsval) option"
  scheduled :: "jsval list"

text \<open>The store once the scheduled deletions have run.\<close>

definition run_scheduled :: "outcome \<Rightarrow> (jsval \<rightharpoonup> jsval) option" where
  "run_scheduled out = map_option (\<lambda>m. foldl (\<lambda>m k. m(k := None)) m (scheduled out)) (kv_after out)"

definition jsonResponse :: "jsval \<Rightarrow> nat \<Rightarrow> response" where
  "jsonResponse data st =
     \<lparr>res_status = st,
      res_headers = [(''Content-Type'', ''application/json''), (''Access-Control-Allow-Origin'', ''*'')],
      res_body = Json (JSON_stringify data)\<rparr>"

definition preflight :: response where
  "preflight =
     \<lparr>res_status = 200,
      res_headers = [(''Access-Control-Allow-Origin'', ''*''),
                 (''Access-Control-Allow-Methods'', ''POST, OPTIONS''),
                 (''Access-Control-Allow-Headers'', ''Content-Type, X-Runway-Version'')],
      res_body = No_body\<rparr>"

definition method_not_allowed :: response where
  "method_not_allowed = \<lparr>res_status = 405, res_headers = [], res_body = Text ''Method not allowed''\<rparr>"

text \<open>\<^verbatim>\<open>!env.RUNWAYML_API_KEY\<close>\<close>

definition key_missing :: "env \<Rightarrow> bool" where
  "key_missing e = (case RUNWAYML_API_KEY e of None \<Rightarrow> True | Some k \<Rightarrow> k = [])"

definition bearer :: "env \<Rightarrow> string" where
  "bearer e = ''Bearer '' @ (case RUNWAYML_API_KEY e of None \<Rightarrow> ''undefined'' | Some k \<Rightarrow> k)"

definition opt_str :: "string option \<Rightarrow> jsval" where
  "opt_str x = (case x of None \<Rightarrow> JUndefined | Some s \<Rightarrow> JStr s)"

definition opt_num :: "rat option \<Rightarrow> jsval" where
  "opt_num x = (case x of None \<Rightarrow> JUndefined | Some r \<Rightarrow> JNum (Num r))"

text \<open>\<^verbatim>\<open>data.error || fallback\<close>, as the message of the error thrown.\<close>

definition error_or :: "task_data \<Rightarrow> string \<Rightarrow> string" where
  "error_or data fallback =
     (case d_error data of None \<Rightarrow> fallback | Some e \<Rightarrow> if e = [] then fallback else e)"

text \<open>\<^verbatim>\<open>data.output?.[0]\<close>\<close>

definition first_output :: "task_data \<Rightarrow> jsval" where
  "first_output data =
     (case d_output data of None \<Rightarrow> JUndefined | Some [] \<Rightarrow> JUndefined | Some (u # us) \<Rightarrow> JStr u)"

text \<open>\<^verbatim>\<open>Math.floor(Math.random() * 4294967295)\<close>: the product is rounded to a double, then
  floored.\<close>

definition random_seed :: "rat \<Rightarrow> jsnum" where
  "random_seed r = js_floor (to_double (r * 4294967295))"

text \<open>\<^verbatim>\<open>formData.get(name)\<close>: the first entry of that name, or \<^verbatim>\<open>null\<close>.\<close>

definition form_get :: "(string \<times> jsval) list \<Rightarrow> string \<Rightarrow> jsval" where
  "form_get form name = (case map_of form name of None \<Rightarrow> JNull | Some v \<Rightarrow> v)"

definition thrown :: "string \<Rightarrow> upstream_call list \<Rightarrow> env \<Rightarrow> attempt" where
  "thrown msg cs e = \<lparr>result = Inl msg, calls = cs, kv = TASK_INFO_KV e, deferred = []\<rparr>"

subsection \<open>\<^verbatim>\<open>functions/ai.js\<close>\<close>

text \<open>
  \<^verbatim>\<open>startImageToVideoJob(imageUrl, prompt, duration, ratio, originalName, env)\<close>: one
  \<^verbatim>\<open>POST /image_to_video\<close>, then the metadata record \<^verbatim>\<open>{type: 'video'}\<close> when the store is
  configured. The source does not use \<^verbatim>\<open>originalName\<close>.
\<close>

definition startImageToVideoJob ::
  "jsval \<Rightarrow> jsval \<Rightarrow> jsnum \<Rightarrow> jsval \<Rightarrow> string \<Rightarrow> env \<Rightarrow> world \<Rightarrow> attempt" where
  "startImageToVideoJob imageUrl prompt duration ratio originalName e w =
     (let call = \<lparr>endpoint = Image_to_video, verb = ''POST'', authorization = bearer e,
                  payload = Some (JSON_stringify (JObj
                    [(''model'', JStr ''gen4_turbo''),
                     (''promptText'', prompt),
                     (''promptImage'', imageUrl),
                     (''seed'', JNum (random_seed (random w))),
                     (''watermark'', JBool False),
                     (''duration'', JNum duration),
                     (''ratio'', ratio)]))\<rparr>
      in case fetch_result w of
           Inl msg \<Rightarrow> thrown msg [call] e
         | Inr resp \<Rightarrow>
             (case json_body resp of
                Inl msg \<Rightarrow> thrown msg [call] e
              | Inr data \<Rightarrow>
                  if \<not> ok resp
                  then thrown (error_or data
                         (''Runway I2V API returned status '' @ show_nat (http_status resp)))
                         [call] e
                  else \<lparr>result = Inr (jsonResponse (JObj
                                   [(''success'', JBool True),
                                    (''taskId'', opt_str (d_id data)),
                                    (''status'', opt_str (d_status data))]) 200),
                        calls = [call],
                        kv = map_option
                               (\<lambda>m. m(opt_str (d_id data) \<mapsto> JObj [(''type'', JStr ''video'')]))
                               (TASK_INFO_KV e),
                        deferred = []\<rparr>))"

text \<open>
  The multipart branch. \<^verbatim>\<open>imageFile.arrayBuffer()\<close> exists on a \<^verbatim>\<open>File\<close> only: an
  \<^verbatim>\<open>image\<close> entry sent as text throws a \<^verbatim>\<open>TypeError\<close>; spreading more bytes than the engine
  takes as arguments throws a \<^verbatim>\<open>RangeError\<close> (messages as V8 words them).
\<close>

definition multipart_submit :: "(string \<times> jsval) list \<Rightarrow> env \<Rightarrow> world \<Rightarrow> attempt" where
  "multipart_submit form e w =
     (let prompt = form_get form ''prompt'';
          imageFile = form_get form ''image'';
          duration = parseInt_of (js_or (form_get form ''duration'') (JStr ''5''));
          ratio = js_or (form_get form ''ratio'') (JStr ''1280:720'')
      in if \<not> truthy prompt \<or> \<not> truthy imageFile
         then thrown ''Request is missing prompt or image file.'' [] e
         else (case imageFile of
                 JFile f \<Rightarrow>
                   if arg_limit w < length (fbytes f)
                   then thrown ''Maximum call stack size exceeded'' [] e
                   else startImageToVideoJob
                          (JStr (''data:'' @ ftype f @ '';base64,'' @ btoa (fbytes f)))
                          prompt duration ratio (fname f) e w
               | _ \<Rightarrow> thrown ''imageFile.arrayBuffer is not a function'' [] e))"

text \<open>\<^verbatim>\<open>case 'generateImage'\<close>\<close>

definition generateImage :: "jsval \<Rightarrow> env \<Rightarrow> world \<Rightarrow> attempt" where
  "generateImage body e w =
     (let prompt = get_prop body ''prompt''; ratio = get_prop body ''ratio''
      in if \<not> truthy prompt then thrown ''Image prompt is missing.'' [] e
         else
           (let call = \<lparr>endpoint = Text_to_image, verb = ''POST'', authorization = bearer e,
                        payload = Some (JSON_stringify (JObj
                          [(''model'', JStr ''gen4_image''),
                           (''promptText'', prompt),
                           (''ratio'', js_or ratio (JStr ''1280:720'')),
                           (''seed'', JNum (random_seed (random w)))]))\<rparr>
            in case fetch_result w of
                 Inl msg \<Rightarrow> thrown msg [call] e
               | Inr resp \<Rightarrow>
                   (case json_body resp of
                      Inl msg \<Rightarrow> thrown msg [call] e
                    | Inr data \<Rightarrow>
                        if \<not> ok resp
                        then thrown (error_or data
                               (''Runway T2I API error: '' @ show_nat (http_status resp)))
                               [call] e
                        else \<lparr>result = Inr (jsonResponse (JObj
                                         [(''success'', JBool True),
                                          (''taskId'', opt_str (d_id data))]) 200),
                              calls = [call],
                              kv = map_option
                                     (\<lambda>m. m(opt_str (d_id data) \<mapsto> JObj [(''type'', JStr ''image'')]))
                                     (TASK_INFO_KV e),
                              deferred = []\<rparr>)))"

text \<open>\<^verbatim>\<open>case 'startVideoFromUrl'\<close>\<close>

definition startVideoFromUrl :: "jsval \<Rightarrow> env \<Rightarrow> world \<Rightarrow> attempt" where
  "startVideoFromUrl body e w =
     (let videoPrompt = get_prop body ''videoPrompt'';
          imageUrl = get_prop body ''imageUrl'';
          duration = get_prop body ''duration'';
          ratio = get_prop body ''ratio''
      in if \<not> truthy videoPrompt \<or> \<not> truthy imageUrl
         then thrown ''Missing video prompt or image URL.'' [] e
         else startImageToVideoJob imageUrl videoPrompt
                (parseInt_of (js_or duration (JStr ''5'')))
                (js_or ratio (JStr ''1280:720'')) ''generated-image'' e w)"

text \<open>
  \<^verbatim>\<open>case 'status'\<close>. On \<^verbatim>\<open>SUCCEEDED\<close> with a first output the kind is looked up (default
  \<^verbatim>\<open>'video'\<close>), the deletion of the record is handed to \<^verbatim>\<open>context.waitUntil\<close>, and the URL is
  returned under \<^verbatim>\<open>imageUrl\<close> or \<^verbatim>\<open>videoUrl\<close>. Every other answer falls through to the
  progress payload of the last line.
\<close>

definition status_action :: "jsval \<Rightarrow> env \<Rightarrow> world \<Rightarrow> attempt" where
  "status_action body e w =
     (let taskId = get_prop body ''taskId''
      in if \<not> truthy taskId then thrown ''Invalid status check request.'' [] e
         else
           (let call = \<lparr>endpoint = Tasks taskId, verb = ''GET'', authorization = bearer e,
                        payload = None\<rparr>
            in case fetch_result w of
                 Inl msg \<Rightarrow> thrown msg [call] e
               | Inr resp \<Rightarrow>
                   (case json_body resp of
                      Inl msg \<Rightarrow> thrown msg [call] e
                    | Inr data \<Rightarrow>
                        if \<not> ok resp
                        then thrown (''Status check failed: '' @ error_or data (statusText resp))
                               [call] e
                        else if d_status data = Some ''SUCCEEDED'' \<and> truthy (first_output data)
                        then
                          (let taskInfo_type =
                                 (case TASK_INFO_KV e of
                                    None \<Rightarrow> JUndefined
                                  | Some m \<Rightarrow>
                                      (case m taskId of
                                         None \<Rightarrow> JUndefined
                                       | Some taskInfo \<Rightarrow> get_prop taskInfo ''type''));
                               taskType = (if truthy taskInfo_type then taskInfo_type
                                           else JStr ''video'');
                               runwayOutputUrl = first_output data
                           in \<lparr>result = Inr (jsonResponse (JObj
                                  ([(''success'', JBool True),
                                    (''status'', opt_str (d_status data)),
                                    (''progress'', opt_num (d_progress data))] @
                                   (if taskType = JStr ''image''
                                    then [(''imageUrl'', runwayOutputUrl)]
                                    else [(''videoUrl'', runwayOutputUrl)]))) 200),
                                calls = [call],
                                kv = TASK_INFO_KV e,
                                deferred = (case TASK_INFO_KV e of None \<Rightarrow> [] | Some m \<Rightarrow> [taskId])\<rparr>)
                        else \<lparr>result = Inr (jsonResponse (JObj
                                  [(''success'', JBool True),
                                   (''status'', opt_str (d_status data)),
                                   (''progress'', opt_num (d_progress data))]) 200),
                              calls = [call],
                              kv = TASK_INFO_KV e,
                              deferred = []\<rparr>)))"

text \<open>The \<^verbatim>\<open>switch (action)\<close> of the JSON branch. Destructuring \<^verbatim>\<open>null\<close> throws.\<close>

definition json_actions :: "jsval \<Rightarrow> env \<Rightarrow> world \<Rightarrow> attempt" where
  "json_actions body e w =
     (if body = JNull
      then thrown ''Cannot destructure property 'action' of 'body' as it is null.'' [] e
      else (let action = get_prop body ''action''
            in if action = JStr ''generateImage'' then generateImage body e w
               else if action = JStr ''startVideoFromUrl'' then startVideoFromUrl body e w
               else if action = JStr ''status'' then status_action body e w
               else thrown ''Invalid action specified.'' [] e))"

text \<open>The \<^verbatim>\<open>try\<close> block: dispatch on the content type.\<close>

definition header_or_empty :: "string option \<Rightarrow> string" where
  "header_or_empty h = (case h of None \<Rightarrow> [] | Some c \<Rightarrow> c)"

definition try_block :: "request \<Rightarrow> env \<Rightarrow> world \<Rightarrow> attempt" where
  "try_block req e w =
     (let contentType = header_or_empty (content_type req)
      in if str_includes contentType ''multipart/form-data''
         then (case formData req of
                 Inl msg \<Rightarrow> thrown msg [] e
               | Inr form \<Rightarrow> multipart_submit form e w)
         else if str_includes contentType ''application/json''
         then (case json req of
                 Inl msg \<Rightarrow> thrown msg [] e
               | Inr body \<Rightarrow> json_actions body e w)
         else thrown ''Invalid request content-type.'' [] e)"

definition quiet :: "response \<Rightarrow> env \<Rightarrow> outcome" where
  "quiet r e = \<lparr>reply = r, upstream = [], kv_after = TASK_INFO_KV e, scheduled = []\<rparr>"

text \<open>The \<^verbatim>\<open>catch\<close> at the top level.\<close>

definition caught :: "attempt \<Rightarrow> outcome" where
  "caught a =
     \<lparr>reply = (case result a of
                 Inl msg \<Rightarrow> jsonResponse (JObj [(''success'', JBool False), (''error'', JStr msg)]) 500
               | Inr r \<Rightarrow> r),
      upstream = calls a, kv_after = kv a, scheduled = deferred a\<rparr>"

text \<open>The missing-credential answer of \<^verbatim>\<open>functions/ai.js\<close> is built by hand, without
  \<^verbatim>\<open>jsonResponse\<close> and so without its two headers.\<close>

definition key_error_msg :: string where
  "key_error_msg = ''CRITICAL FIX REQUIRED: Check Cloudflare project settings for API Key.''"

definition key_error_response :: response where
  "key_error_response =
     \<lparr>res_status = 500, res_headers = [],
      res_body = Json (JSON_stringify (JObj [(''success'', JBool False), (''error'', JStr key_error_msg)]))\<rparr>"

definition onRequest :: "request \<Rightarrow> env \<Rightarrow> world \<Rightarrow> outcome" where
  "onRequest req e w =
     (if req_method req = ''OPTIONS'' then quiet preflight e
      else if req_method req \<noteq> ''POST'' then quiet method_not_allowed e
      else if key_missing e then quiet key_error_response e
      else caught (try_block req e w))"

subsection \<open>The image-only handler (\<^verbatim>\<open>part_000\<close>)\<close>

text \<open>
  The sibling handler has the same frame and its own branches: the multipart branch submits
  an image-conditioned \<^verbatim>\<open>text_to_image\<close> job (the binary string is built by a loop, so no
  argument limit applies), the JSON branch knows the \<^verbatim>\<open>status\<close> action only, and there is no
  metadata store. Its \<^verbatim>\<open>jsonResponse\<close> is the same function.
\<close>

definition multipart_submit_part_000 ::
  "(string \<times> jsval) list \<Rightarrow> env \<Rightarrow> world \<Rightarrow> attempt" where
  "multipart_submit_part_000 form e w =
     (let prompt = form_get form ''prompt'';
          imageFile = form_get form ''image'';
          ratio = js_or (form_get form ''ratio'') (JStr ''1280:720'')
      in if \<not> truthy prompt \<or> \<not> truthy imageFile
         then thrown ''Request is missing prompt or image file.'' [] e
         else (case imageFile of
                 JFile f \<Rightarrow>
                   (let call = \<lparr>endpoint = Text_to_image, verb = ''POST'',
                                authorization = bearer e,
                                payload = Some (JSON_stringify (JObj
                                  [(''model'', JStr ''gen4_image''),
                                   (''promptText'', prompt),
                                   (''promptImage'',
                                      JStr (''data:'' @ ftype f @ '';base64,'' @ btoa (fbytes f))),
                                   (''ratio'', ratio),
                                   (''structure_strength'', JNum (to_double (85 / 100))),
                                   (''seed'', JNum (random_seed (random w)))]))\<rparr>
                    in case fetch_result w of
                         Inl msg \<Rightarrow> thrown msg [call] e
                       | Inr resp \<Rightarrow>
                           (case json_body resp of
                              Inl msg \<Rightarrow> thrown msg [call] e
                            | Inr data \<Rightarrow>
                                if \<not> ok resp
                                then thrown (error_or data
                                       (''Runway API Error: '' @ show_nat (http_status resp)))
                                       [call] e
                                else \<lparr>result = Inr (jsonResponse (JObj
                                                 [(''success'', JBool True),
                                                  (''taskId'', opt_str (d_id data))]) 200),
                                      calls = [call], kv = TASK_INFO_KV e, deferred = []\<rparr>))
               | _ \<Rightarrow> thrown ''imageFile.arrayBuffer is not a function'' [] e))"

text \<open>The \<^verbatim>\<open>status\<close> action of the sibling: \<^verbatim>\<open>SUCCEEDED\<close> without a first output is answered
  as a failure.\<close>

definition status_action_part_000 :: "jsval \<Rightarrow> env \<Rightarrow> world \<Rightarrow> attempt" where
  "status_action_part_000 body e w =
     (let taskId = get_prop body ''taskId''
      in if \<not> truthy taskId then thrown ''Task ID is missing for status check.'' [] e
         else
           (let call = \<lparr>endpoint = Tasks taskId, verb = ''GET'', authorization = bearer e,
                        payload = None\<rparr>
            in case fetch_result w of
                 Inl msg \<Rightarrow> thrown msg [call] e
               | Inr resp \<Rightarrow>
                   (case json_body resp of
                      Inl msg \<Rightarrow> thrown msg [call] e
                    | Inr data \<Rightarrow>
                        if \<not> ok resp
                        then thrown (''Status check failed: '' @ error_or data (statusText resp))
                               [call] e
                        else if d_status data = Some ''SUCCEEDED''
                        then (if truthy (first_output data)
                              then \<lparr>result = Inr (jsonResponse (JObj
                                               [(''success'', JBool True),
                                                (''status'', opt_str (d_status data)),
                                                (''progress'', opt_num (d_progress data)),
                                                (''imageUrl'', first_output data)]) 200),
                                    calls = [call], kv = TASK_INFO_KV e, deferred = []\<rparr>
                              else \<lparr>result = Inr (jsonResponse (JObj
                                               [(''success'', JBool False),
                                                (''status'', JStr ''FAILED''),
                                                (''error'', JStr ''Task succeeded but output was empty.'')])
                                               200),
                                    calls = [call], kv = TASK_INFO_KV e, deferred = []\<rparr>)
                        else \<lparr>result = Inr (jsonResponse (JObj
                                         [(''success'', JBool True),
                                          (''status'', opt_str (d_status data)),
                                          (''progress'', opt_num (d_progress data))]) 200),
                              calls = [call], kv = TASK_INFO_KV e, deferred = []\<rparr>)))"

definition json_actions_part_000 :: "jsval \<Rightarrow> env \<Rightarrow> world \<Rightarrow> attempt" where
  "json_actions_part_000 body e w =
     (if body = JNull
      then thrown ''Cannot destructure property 'action' of 'body' as it is null.'' [] e
      else if get_prop body ''action'' = JStr ''status'' then status_action_part_000 body e w
      else thrown ''Invalid action specified.'' [] e)"

definition try_block_part_000 :: "request \<Rightarrow> env \<Rightarrow> world \<Rightarrow> attempt" where
  "try_block_part_000 req e w =
     (let contentType = header_or_empty (content_type req)
      in if str_includes contentType ''multipart/form-data''
         then (case formData req of
                 Inl msg \<Rightarrow> thrown msg [] e
               | Inr form \<Rightarrow> multipart_submit_part_000 form e w)
         else if str_includes contentType ''application/json''
         then (case json req of
                 Inl msg \<Rightarrow> thrown msg [] e
               | Inr body \<Rightarrow> json_actions_part_000 body e w)
         else thrown (''Invalid request content-type: '' @ contentType) [] e)"

definition key_error_msg_part_000 :: string where
  "key_error_msg_part_000 =
     ''CRITICAL FIX REQUIRED: Check Cloudflare project settings for RUNWAYML_API_KEY.''"

definition onRequest_part_000 :: "request \<Rightarrow> env \<Rightarrow> world \<Rightarrow> outcome" where
  "onRequest_part_000 req e w =
     (if req_method req = ''OPTIONS'' then quiet preflight e
      else if req_method req \<noteq> ''POST'' then quiet method_not_allowed e
      else if key_missing e
      then quiet (jsonResponse (JObj [(''success'', JBool False),
                                      (''error'', JStr key_error_msg_part_000)]) 500) e
      else caught (try_block_part_000 req e w))"

section \<open>The polling controller of the client (\<^verbatim>\<open>src/App.jsx\<close>)\<close>

text \<open>
  The component state that the submission and the polling touch; the interval timers that
  are live, each with its id and the task id its callback closes over; \<^verbatim>\<open>pollIntervalRef\<close>,
  which holds the id of the timer started last (\<open>None\<close>: \<^verbatim>\<open>null\<close>); the id that
  \<^verbatim>\<open>setInterval\<close> returns next (ids are positive and never reused); the status requests
  issued so far and the number of them still unanswered.
\<close>

record app =
  prompt :: string
  selectedFile :: "jsfile option"
  ratio :: string
  modifiedImageUrl :: "string option"
  isGenerating :: bool
  progress :: jsnum
  status :: string
  error :: string
  timers :: "(nat \<times> jsval) list"
  pollIntervalRef :: "nat option"
  next_timer :: nat
  requests :: "jsval list"
  in_flight :: nat

text \<open>
  What one request to \<^verbatim>\<open>/ai\<close> resolves to, as the client reads it: \<^verbatim>\<open>response.ok\<close> and the
  properties of the JSON body at the types the handler writes them (an absent property is
  \<open>None\<close>, an absent \<^verbatim>\<open>success\<close> is \<open>False\<close>). \<open>Inl\<close>: \<^verbatim>\<open>fetch\<close> or \<^verbatim>\<open>json()\<close> rejects.
\<close>

record reply_data =
  sd_success :: bool
  sd_error :: "string option"
  sd_taskId :: "string option"
  sd_status :: "string option"
  sd_progress :: "rat option"
  sd_imageUrl :: "string option"
  sd_failure_reason :: "string option"

record client_reply =
  reply_ok :: bool
  reply_data :: reply_data

text \<open>\<^verbatim>\<open>x || fallback\<close> on an optional string.\<close>

definition str_or :: "string option \<Rightarrow> string \<Rightarrow> string" where
  "str_or x fallback = (case x of None \<Rightarrow> fallback | Some t \<Rightarrow> if t = [] then fallback else t)"

text \<open>\<^verbatim>\<open>x.toFixed(0)\<close>: the nearest integer, a tie going away from zero (a finite \<open>x\<close> below
  \<open>10\<^sup>2\<^sup>1\<close> in magnitude; the percentages of the handler's answers are).\<close>

definition toFixed0 :: "jsnum \<Rightarrow> string" where
  "toFixed0 v =
     (case v of
        NaN \<Rightarrow> ''NaN''
      | PosInf \<Rightarrow> ''Infinity''
      | NegInf \<Rightarrow> ''-Infinity''
      | Num x \<Rightarrow> (if x < 0 then ''-'' else []) @ show_nat (nat \<lfloor>\<bar>x\<bar> + 1 / 2\<rfloor>))"

text \<open>\<^verbatim>\<open>(statusData.progress * 100) || 0\<close>: the product is rounded to a double; an absent
  progress gives \<open>NaN\<close>, which is falsy as the zero is.\<close>

definition progress_percentage :: "rat option \<Rightarrow> jsnum" where
  "progress_percentage p =
     (let v = (case p of None \<Rightarrow> NaN | Some x \<Rightarrow> to_double (x * 100))
      in if truthy (JNum v) then v else Num 0)"

text \<open>\<^verbatim>\<open>resetState\<close> clears the results; it clears no timer.\<close>

definition resetState :: "app \<Rightarrow> app" where
  "resetState s =
     s\<lparr>modifiedImageUrl := None, isGenerating := False, progress := Num 0, status := [],
       error := []\<rparr>"

text \<open>\<^verbatim>\<open>pollForStatus(taskId)\<close> starts a new interval timer and stores its id in the ref. A
  timer started earlier is not cleared: it stays live, and its id is lost.\<close>

definition pollForStatus :: "jsval \<Rightarrow> app \<Rightarrow> app" where
  "pollForStatus taskId s =
     s\<lparr>timers := timers s @ [(next_timer s, taskId)],
       pollIntervalRef := Some (next_timer s),
       next_timer := Suc (next_timer s)\<rparr>"

text \<open>\<^verbatim>\<open>clearInterval(pollIntervalRef.current)\<close> clears the timer whose id the ref holds, if
  it is live, and no other.\<close>

definition clearInterval_ref :: "app \<Rightarrow> app" where
  "clearInterval_ref s =
     (case pollIntervalRef s of
        None \<Rightarrow> s
      | Some i \<Rightarrow> s\<lparr>timers := filter (\<lambda>(j, t). j \<noteq> i) (timers s)\<rparr>)"

text \<open>The cleanup that runs when the component unmounts.\<close>

definition unmount :: "app \<Rightarrow> app" where
  "unmount s = clearInterval_ref s"

text \<open>The \<^verbatim>\<open>catch\<close> of the interval callback.\<close>

definition poll_failed :: "string \<Rightarrow> app \<Rightarrow> app" where
  "poll_failed msg s = clearInterval_ref (s\<lparr>error := msg, isGenerating := False\<rparr>)"

text \<open>
  The interval callback, in its two halves: a tick of a live timer sends one status request
  for the task id of that timer; the continuation runs when the answer arrives, whatever the
  timers have become in the meantime.
\<close>

definition on_tick :: "nat \<Rightarrow> app \<Rightarrow> app" where
  "on_tick i s =
     (case map_of (timers s) i of
        None \<Rightarrow> s
      | Some taskId \<Rightarrow> s\<lparr>requests := requests s @ [taskId], in_flight := in_flight s + 1\<rparr>)"

definition on_reply :: "string + client_reply \<Rightarrow> app \<Rightarrow> app" where
  "on_reply r s =
     (case r of
        Inl msg \<Rightarrow> poll_failed msg s
      | Inr rep \<Rightarrow>
          (let statusData = reply_data rep
           in if \<not> reply_ok rep \<or> \<not> sd_success statusData
              then poll_failed (str_or (sd_error statusData) ''Failed to check task status'') s
              else
                (let progressPercentage = progress_percentage (sd_progress statusData);
                     s1 = s\<lparr>status := ''Status: ''
                                  @ (case sd_status statusData of None \<Rightarrow> ''undefined'' | Some t \<Rightarrow> t)
                                  @ '' ('' @ toFixed0 progressPercentage @ ''%)'',
                            progress := progressPercentage\<rparr>
                 in if sd_status statusData = Some ''SUCCEEDED''
                    then (let s2 = clearInterval_ref s1
                          in case sd_imageUrl statusData of
                               None \<Rightarrow> poll_failed ''Task succeeded but no image URL was returned.'' s2
                             | Some u \<Rightarrow>
                                 if u = []
                                 then poll_failed ''Task succeeded but no image URL was returned.'' s2
                                 else s2\<lparr>modifiedImageUrl := Some u,
                                         status := ''Image generation completed!'',
                                         isGenerating := False\<rparr>)
                    else if sd_status statusData = Some ''FAILED''
                    then poll_failed
                           (str_or (sd_failure_reason statusData) ''Image generation failed'') s1
                    else s1)))"

text \<open>
  \<^verbatim>\<open>generateModifiedImage\<close>: local validation, the upload, and on a job id the start of the
  polling.
\<close>

definition generateModifiedImage :: "string + client_reply \<Rightarrow> app \<Rightarrow> app" where
  "generateModifiedImage r s =
     (if selectedFile s = None \<or> list_all is_ws (prompt s)
      then s\<lparr>error := ''Please upload an image and provide a modification prompt.''\<rparr>
      else
        (let s1 = (resetState s)\<lparr>isGenerating := True,
                                 status := ''Uploading image and starting job...''\<rparr>
         in case r of
              Inl msg \<Rightarrow> s1\<lparr>error := msg, isGenerating := False\<rparr>
            | Inr rep \<Rightarrow>
                if \<not> reply_ok rep \<or> \<not> sd_success (reply_data rep)
                then s1\<lparr>error := str_or (sd_error (reply_data rep))
                                     ''Failed to start image modification'',
                        isGenerating := False\<rparr>
                else pollForStatus (opt_str (sd_taskId (reply_data rep)))
                       (s1\<lparr>status := ''Job started, processing image...''\<rparr>)))"

text \<open>
  A polling run is a sequence of events: the timer of some id ticks (nothing happens unless
  it is live), and the oldest unanswered request is answered. An answer with no request in
  flight cannot happen and is ignored.
\<close>

datatype event = Tick nat | Answer "string + client_reply"

fun step :: "app \<Rightarrow> event \<Rightarrow> app" where
  "step s (Tick i) = on_tick i s"
| "step s (Answer r) =
     (if in_flight s = 0 then s else on_reply r (s\<lparr>in_flight := in_flight s - 1\<rparr>))"

definition run :: "app \<Rightarrow> event list \<Rightarrow> app" where
  "run s evs = foldl step s evs"

text \<open>A status answer that keeps the controller polling, and one that ends it with a URL.\<close>

definition non_terminal :: "string + client_reply \<Rightarrow> bool" where
  "non_terminal r =
     (case r of
        Inl msg \<Rightarrow> False
      | Inr rep \<Rightarrow> reply_ok rep \<and> sd_success (reply_data rep)
                   \<and> sd_status (reply_data rep) \<noteq> Some ''SUCCEEDED''
                   \<and> sd_status (reply_data rep) \<noteq> Some ''FAILED'')"

definition succeeded_with :: "string \<Rightarrow> string + client_reply \<Rightarrow> bool" where
  "succeeded_with u r =
     (case r of
        Inl msg \<Rightarrow> False
      | Inr rep \<Rightarrow> reply_ok rep \<and> sd_success (reply_data rep)
                   \<and> sd_status (reply_data rep) = Some ''SUCCEEDED''
                   \<and> sd_imageUrl (reply_data rep) = Some u \<and> u \<noteq> [])"

section \<open>Situations and sample inputs\<close>

text \<open>A \<^verbatim>\<open>POST\<close> with the credential configured whose content type selects the JSON branch,
  and one whose content type selects the multipart branch (tested first).\<close>

definition json_post :: "request \<Rightarrow> env \<Rightarrow> bool" where
  "json_post req e =
     (req_method req = ''POST'' \<and> \<not> key_missing e
      \<and> \<not> str_includes (header_or_empty (content_type req)) ''multipart/form-data''
      \<and> str_includes (header_or_empty (content_type req)) ''application/json'')"

definition multipart_post :: "request \<Rightarrow> env \<Rightarrow> bool" where
  "multipart_post req e =
     (req_method req = ''POST'' \<and> \<not> key_missing e
      \<and> str_includes (header_or_empty (content_type req)) ''multipart/form-data'')"

text \<open>No metadata record for a key: the store is not configured, or holds nothing there.\<close>

definition no_record :: "env \<Rightarrow> jsval \<Rightarrow> bool" where
  "no_record e k = (case TASK_INFO_KV e of None \<Rightarrow> True | Some m \<Rightarrow> m k = None)"

text \<open>
  A submission with a required field missing (absent, or falsy as the handlers test it:
  \<^verbatim>\<open>null\<close>, the empty string, ...): a multipart body without \<^verbatim>\<open>prompt\<close> or \<^verbatim>\<open>image\<close>, a
  JSON \<^verbatim>\<open>generateImage\<close> without \<^verbatim>\<open>prompt\<close>, a JSON \<^verbatim>\<open>startVideoFromUrl\<close> without
  \<^verbatim>\<open>videoPrompt\<close> or \<^verbatim>\<open>imageUrl\<close>.
\<close>

definition malformed_submission :: "request \<Rightarrow> bool" where
  "malformed_submission req =
     (let contentType = header_or_empty (content_type req)
      in if str_includes contentType ''multipart/form-data''
         then (case formData req of
                 Inl msg \<Rightarrow> False
               | Inr form \<Rightarrow> \<not> truthy (form_get form ''prompt'') \<or> \<not> truthy (form_get form ''image''))
         else if str_includes contentType ''application/json''
         then (case json req of
                 Inl msg \<Rightarrow> False
               | Inr b \<Rightarrow>
                   (get_prop b ''action'' = JStr ''generateImage'' \<and> \<not> truthy (get_prop b ''prompt''))
                   \<or> (get_prop b ''action'' = JStr ''startVideoFromUrl''
                       \<and> (\<not> truthy (get_prop b ''videoPrompt'') \<or> \<not> truthy (get_prop b ''imageUrl''))))
         else False)"

text \<open>A property of the JSON document in a response body.\<close>

definition body_prop :: "response \<Rightarrow> string \<Rightarrow> jsval" where
  "body_prop r k = (case res_body r of Json doc \<Rightarrow> get_prop doc k | _ \<Rightarrow> JUndefined)"

text \<open>A response whose body is JSON, declared as such, with the permissive cross-origin
  header.\<close>

definition json_cors :: "response \<Rightarrow> bool" where
  "json_cors r =
     ((case res_body r of Json doc \<Rightarrow> True | _ \<Rightarrow> False)
      \<and> map_of (res_headers r) ''Content-Type'' = Some ''application/json''
      \<and> map_of (res_headers r) ''Access-Control-Allow-Origin'' = Some ''*'')"

text \<open>The \<^verbatim>\<open>seed\<close> property of the body of an upstream call, and the calls that submit a
  job.\<close>

definition seed_sent :: "upstream_call \<Rightarrow> jsval option" where
  "seed_sent c = map_option (\<lambda>p. get_prop p ''seed'') (payload c)"

definition is_submission :: "upstream_call \<Rightarrow> bool" where
  "is_submission c = (endpoint c = Text_to_image \<or> endpoint c = Image_to_video)"

text \<open>Concrete inputs for the examples below.\<close>

definition json_request :: "jsval \<Rightarrow> request" where
  "json_request b =
     \<lparr>req_method = ''POST'', content_type = Some ''application/json'',
      formData = Inl ''not a form'', json = Inr b\<rparr>"

definition multipart_request :: "(string \<times> jsval) list \<Rightarrow> request" where
  "multipart_request form =
     \<lparr>req_method = ''POST'', content_type = Some ''multipart/form-data; boundary=x'',
      formData = Inr form, json = Inl ''not JSON''\<rparr>"

definition bare_request :: "string \<Rightarrow> request" where
  "bare_request m =
     \<lparr>req_method = m, content_type = None, formData = Inl ''no body'', json = Inl ''no body''\<rparr>"

definition env_with :: "(jsval \<rightharpoonup> jsval) option \<Rightarrow> env" where
  "env_with store = \<lparr>RUNWAYML_API_KEY = Some ''key_123'', TASK_INFO_KV = store\<rparr>"

definition env_without_key :: env where
  "env_without_key = \<lparr>RUNWAYML_API_KEY = None, TASK_INFO_KV = None\<rparr>"

definition upstream_ok :: "task_data \<Rightarrow> world" where
  "upstream_ok data =
     \<lparr>fetch_result = Inr \<lparr>http_status = 200, statusText = ''OK'', json_body = Inr data\<rparr>,
      random = 1 / 2, arg_limit = 65535\<rparr>"

definition task :: "string \<Rightarrow> rat option \<Rightarrow> string list option \<Rightarrow> task_data" where
  "task st p out =
     \<lparr>d_error = None, d_id = Some ''task-1'', d_status = Some st, d_progress = p, d_output = out\<rparr>"

definition status_body :: jsval where
  "status_body = JObj [(''action'', JStr ''status''), (''taskId'', JStr ''task-1'')]"

definition small_png :: jsfile where
  "small_png = File ''cat.png'' ''image/png'' ''Man''"

definition offline :: world where
  "offline = \<lparr>fetch_result = Inl ''fetch failed'', random = 0, arg_limit = 65535\<rparr>"

definition image_store :: "jsval \<rightharpoonup> jsval" where
  "image_store = [JStr ''task-1'' \<mapsto> JObj [(''type'', JStr ''image'')]]"

definition generate_body :: jsval where
  "generate_body = JObj [(''action'', JStr ''generateImage''), (''prompt'', JStr ''a red fox'')]"

text \<open>A multipart submission of a prompt, an image and a duration field.\<close>

definition duration_form :: "jsval \<Rightarrow> (string \<times> jsval) list" where
  "duration_form v = [(''prompt'', JStr ''a cat''), (''image'', JFile small_png), (''duration'', v)]"

definition job_started :: app where
  "job_started =
     \<lparr>prompt = ''watercolor'', selectedFile = Some small_png, ratio = ''1280:720'',
      modifiedImageUrl = None, isGenerating = True, progress = Num 0,
      status = ''Job started, processing image...'', error = [],
      timers = [], pollIntervalRef = None, next_timer = 1, requests = [], in_flight = 0\<rparr>"

definition running_reply :: "string + client_reply" where
  "running_reply =
     Inr \<lparr>reply_ok = True,
          reply_data = \<lparr>sd_success = True, sd_error = None, sd_taskId = None,
                         sd_status = Some ''RUNNING'', sd_progress = Some (1 / 2),
                         sd_imageUrl = None, sd_failure_reason = None\<rparr>\<rparr>"

definition succeeded_reply :: "string + client_reply" where
  "succeeded_reply =
     Inr \<lparr>reply_ok = True,
          reply_data = \<lparr>sd_success = True, sd_error = None, sd_taskId = None,
                         sd_status = Some ''SUCCEEDED'', sd_progress = Some 1,
                         sd_imageUrl = Some ''https://x/y.png'', sd_failure_reason = None\<rparr>\<rparr>"

section \<open>Properties of the rounding to doubles\<close>

text \<open>The binary exponent brackets its argument.\<close>

lemma bit_length_bounds:
  "0 < n \<Longrightarrow> 2 ^ (bit_length n - 1) \<le> n \<and> n < 2 ^ bit_length n"
proof (induction n rule: bit_length.induct)
  case (1 n)
  show ?case
  proof (cases "n div 2 = 0")
    case True
    with "1.prems" have "n = 1" by (simp add: div_eq_0_iff)
    then show ?thesis by (simp add: bit_length.simps)
  next
    case False
    then have pos: "0 < n div 2" by simp
    from "1.IH"[OF _ pos] "1.prems"
    have ih: "2 ^ (bit_length (n div 2) - 1) \<le> n div 2" "n div 2 < 2 ^ bit_length (n div 2)"
      by simp_all
    have k: "0 < bit_length (n div 2)"
      using pos by (simp add: bit_length.simps[of "n div 2"])
    have bl: "bit_length n = Suc (bit_length (n div 2))"
      using "1.prems" by (simp add: bit_length.simps[of n])
    have "(2::nat) ^ bit_length (n div 2) = 2 * 2 ^ (bit_length (n div 2) - 1)"
      using k by (cases "bit_length (n div 2)") simp_all
    moreover have "2 * (n div 2) \<le> n" by simp
    ultimately have lo: "2 ^ bit_length (n div 2) \<le> n" using ih(1) by linarith
    have "n < 2 * (n div 2) + 2" by presburger
    then have hi: "n < 2 * 2 ^ bit_length (n div 2)" using ih(2) by linarith
    show ?thesis using lo hi by (simp add: bl)
  qed
qed

text \<open>Floor and ceiling of a quotient of numerals, by integer division.\<close>

lemma floor_rat_numeral: "\<lfloor>numeral a / numeral b :: rat\<rfloor> = numeral a div numeral b"
  using floor_divide_of_int_eq[of "numeral a" "numeral b", where ?'a = rat] by simp

lemma ceiling_rat_numeral: "\<lceil>numeral a / numeral b :: rat\<rceil> = - (- numeral a div numeral b)"
proof -
  have "\<lceil>numeral a / numeral b :: rat\<rceil> = - \<lfloor>- (numeral a / numeral b :: rat)\<rfloor>"
    by (simp add: ceiling_def)
  also have "- (numeral a / numeral b :: rat) = of_int (- numeral a) / of_int (numeral b)"
    by simp
  finally show ?thesis
    by (simp only: floor_divide_of_int_eq)
qed

lemma ilog2_bounds:
  assumes "0 < a"
  shows "2 powi (ilog2 a) \<le> a \<and> a < 2 powi (ilog2 a + 1)"
proof (cases "1 \<le> a")
  case True
  define f where "f = nat \<lfloor>a\<rfloor>"
  define k where "k = bit_length f"
  have fl: "1 \<le> \<lfloor>a\<rfloor>" using True by (simp add: le_floor_iff)
  then have f1: "0 < f" by (simp add: f_def)
  have b: "2 ^ (k - 1) \<le> f" "f < 2 ^ k"
    using bit_length_bounds[OF f1] by (simp_all add: k_def)
  have kpos: "0 < k"
    using f1 by (simp add: k_def bit_length.simps[of f])
  have il: "ilog2 a = int k - 1"
    using True by (simp add: ilog2_def f_def k_def)
  have ff: "rat_of_nat f = of_int \<lfloor>a\<rfloor>"
    using fl by (simp add: f_def of_nat_nat)
  have fa: "rat_of_nat f \<le> a" "a < rat_of_nat f + 1"
    unfolding ff by linarith+
  have "rat_of_nat (2 ^ (k - 1)) \<le> rat_of_nat f"
    using b(1) by (simp only: of_nat_le_iff)
  then have lo: "(2::rat) ^ (k - 1) \<le> rat_of_nat f" by simp
  have "f + 1 \<le> 2 ^ k" using b(2) by simp
  then have "rat_of_nat (f + 1) \<le> rat_of_nat (2 ^ k)"
    by (simp only: of_nat_le_iff)
  then have hi: "rat_of_nat f + 1 \<le> 2 ^ k" by simp
  have p1: "(2::rat) powi (int k - 1) = 2 ^ (k - 1)"
    using kpos by (simp add: power_int_def nat_diff_distrib)
  have p2: "(2::rat) powi (int k - 1 + 1) = 2 ^ k"
    by simp
  show ?thesis
    unfolding il p1 p2 using lo hi fa by linarith
next
  case False
  define y where "y = 1 / a"
  define c where "c = \<lceil>y\<rceil>"
  define m where "m = nat (c - 1)"
  define k where "k = bit_length m"
  have y1: "1 < y" using False assms by (simp add: y_def)
  have c2: "2 \<le> c" using y1 by (simp add: c_def le_ceiling_iff)
  then have m1: "0 < m" by (simp add: m_def)
  have b: "2 ^ (k - 1) \<le> m" "m < 2 ^ k"
    using bit_length_bounds[OF m1] by (simp_all add: k_def)
  have kpos: "0 < k"
    using m1 by (simp add: k_def bit_length.simps[of m])
  have il: "ilog2 a = - int k"
    using False by (simp add: ilog2_def y_def c_def m_def k_def)
  have mc: "rat_of_nat m = of_int c - 1"
    using c2 by (simp add: m_def of_nat_nat)
  have yc: "y \<le> of_int c" "of_int c - 1 < y"
    unfolding c_def by linarith+
  have "rat_of_nat (2 ^ (k - 1)) \<le> rat_of_nat m"
    using b(1) by (simp only: of_nat_le_iff)
  then have lo: "(2::rat) ^ (k - 1) \<le> rat_of_nat m" by simp
  have "m + 1 \<le> 2 ^ k" using b(2) by simp
  then have "rat_of_nat (m + 1) \<le> rat_of_nat (2 ^ k)"
    by (simp only: of_nat_le_iff)
  then have hi: "rat_of_nat m + 1 \<le> 2 ^ k" by simp
  have ylo: "(2::rat) ^ (k - 1) < y" using lo mc yc by linarith
  have yhi: "y \<le> 2 ^ k" using hi mc yc by linarith
  have p1: "(2::rat) powi (- int k) = 1 / 2 ^ k"
    by (simp add: power_int_minus_divide)
  have p2: "(2::rat) powi (- int k + 1) = 1 / 2 ^ (k - 1)"
  proof -
    have "- int k + 1 = - int (k - 1)" using kpos by simp
    then show ?thesis by (simp only: power_int_minus_divide power_int_of_nat)
  qed
  have a1: "1 / 2 ^ k \<le> a"
    using yhi assms by (simp add: y_def field_simps)
  have a2: "a < 1 / 2 ^ (k - 1)"
    using ylo assms by (simp add: y_def field_simps)
  show ?thesis
    unfolding il p1 p2 using a1 a2 by simp
qed

text \<open>Rounding to the nearest integer is monotone around an integer.\<close>

lemma round_half_even_le: "y < of_int z + 1 / 2 \<Longrightarrow> round_half_even y \<le> z"
  unfolding round_half_even_def Let_def
  by (auto simp: not_less) linarith+

lemma round_half_even_ge: "of_int z \<le> y \<Longrightarrow> z \<le> round_half_even y"
  unfolding round_half_even_def Let_def
  by (auto simp: le_floor_iff) linarith+

text \<open>
  The doubles around \<open>2\<^sup>3\<^sup>2\<close> are \<open>2\<^sup>-\<^sup>2\<^sup>1\<close> apart. An exact result that is at most \<open>2\<^sup>-\<^sup>5\<^sup>3\<close> above
  the double \<open>4294967295 - 2\<^sup>-\<^sup>2\<^sup>1\<close> rounds to that double at most.
\<close>

lemma seed_product_rounding:
  assumes "0 \<le> x" "x \<le> 9007199252643839 / 2097152 + 1 / 9007199254740992"
  shows "\<exists>y. to_double x = Num y \<and> 0 \<le> y \<and> y \<le> 9007199252643839 / 2097152"
proof (cases "x = 0")
  case True
  then show ?thesis by (simp add: to_double_def)
next
  case False
  with assms have pos: "0 < x" by simp
  define e where "e = ilog2 x"
  define q where "q = max (e - 52) (- 1074)"
  define n where "n = round_half_even (x / 2 powi q)"
  have b: "2 powi e \<le> x" "x < 2 powi (e + 1)"
    using ilog2_bounds[OF pos] by (simp_all add: e_def)
  have x32: "x < 2 powi 32" using assms(2) by simp
  have e31: "e \<le> 31"
  proof (rule ccontr)
    assume "\<not> e \<le> 31"
    then have "(2::rat) powi 32 \<le> 2 powi e" by (intro power_int_increasing) simp_all
    with b(1) x32 show False by simp
  qed
  have q21: "q \<le> - 21" using e31 by (simp add: q_def)
  have p: "(0::rat) < 2 powi q" by simp
  define t where "t = nat (- 21 - q)"
  have "q + int t = - 21" using q21 by (simp add: t_def)
  then have "(2::rat) powi (- 21) = 2 powi q * 2 powi (int t)"
    by (metis power_int_add zero_neq_numeral)
  then have pq: "(2::rat) powi q * 2 ^ t = 1 / 2097152"
    by simp
  define z :: int where "z = 9007199252643839 * 2 ^ t"
  have zq: "of_int z * (2::rat) powi q = 9007199252643839 / 2097152"
  proof -
    have "of_int z * (2::rat) powi q = 9007199252643839 * (2 powi q * 2 ^ t)"
      by (simp add: z_def)
    then show ?thesis by (simp only: pq)
  qed
  have lt: "x < of_int z * 2 powi q + 2 powi q / 2"
  proof (cases "e = 31")
    case True
    then have "q = - 21" by (simp add: q_def)
    then have h: "(2::rat) powi q / 2 = 1 / 4194304" by simp
    show ?thesis unfolding zq h using assms(2) by simp
  next
    case False
    with e31 have "e + 1 \<le> 31" by simp
    then have "(2::rat) powi (e + 1) \<le> 2 powi 31" by (intro power_int_increasing) simp_all
    with b(2) have "x < 2147483648" by simp
    moreover have "(0::rat) < 2 powi q / 2" by simp
    ultimately show ?thesis unfolding zq by linarith
  qed
  have "x / 2 powi q < of_int z + 1 / 2"
  proof -
    have "x / 2 powi q < (of_int z * 2 powi q + 2 powi q / 2) / 2 powi q"
      using lt p by (simp add: divide_strict_right_mono)
    also have "\<dots> = of_int z + 1 / 2" using p by (simp add: field_simps)
    finally show ?thesis .
  qed
  then have nz: "n \<le> z" unfolding n_def by (rule round_half_even_le)
  have "rat_of_int 0 \<le> x / 2 powi q" using pos by simp
  then have n0: "0 \<le> n" unfolding n_def by (rule round_half_even_ge)
  have td: "to_double x = Num (of_int n * 2 powi q)"
    unfolding to_double_def using False pos e31
    by (simp add: Let_def e_def[symmetric] q_def[symmetric] n_def[symmetric])
  have "of_int n * (2::rat) powi q \<le> of_int z * 2 powi q"
    using nz by (simp add: mult_right_mono)
  moreover have "0 \<le> of_int n * (2::rat) powi q" using n0 by simp
  ultimately show ?thesis using td zq by simp
qed

text \<open>The largest double below \<open>1\<close> is \<open>1 - 2\<^sup>-\<^sup>5\<^sup>3\<close>.\<close>

lemma double_below_one:
  assumes "is_double r" "0 \<le> r" "r < 1"
  shows "r \<le> 9007199254740991 / 9007199254740992"
proof (cases "r = 0")
  case True
  then show ?thesis by simp
next
  case False
  with assms have pos: "0 < r" by simp
  define e where "e = ilog2 r"
  define q where "q = max (e - 52) (- 1074)"
  define n where "n = round_half_even (r / 2 powi q)"
  have b: "2 powi e \<le> r" "r < 2 powi (e + 1)"
    using ilog2_bounds[OF pos] by (simp_all add: e_def)
  have e1: "e \<le> - 1"
  proof (rule ccontr)
    assume "\<not> e \<le> - 1"
    then have "(2::rat) powi 0 \<le> 2 powi e" by (intro power_int_increasing) simp_all
    with b(1) assms(3) show False by simp
  qed
  have q53: "q \<le> - 53" using e1 by (simp add: q_def)
  have qe: "e + 1 - q \<le> 53" by (simp add: q_def)
  have p: "(0::rat) < 2 powi q" by simp
  have "to_double r = Num (of_int n * 2 powi q)"
    unfolding to_double_def using False pos e1
    by (simp add: Let_def e_def[symmetric] q_def[symmetric] n_def[symmetric])
  with assms(1) have r: "r = of_int n * 2 powi q" by (simp add: is_double_def)
  have "r / 2 powi q < 2 powi (e + 1) / 2 powi q"
    using b(2) p by (simp add: divide_strict_right_mono)
  also have "\<dots> = 2 powi (e + 1 - q)"
    by (simp add: power_int_diff)
  also have "\<dots> \<le> 2 powi 53" using qe by (intro power_int_increasing) simp_all
  finally have "r / 2 powi q < 9007199254740992" by simp
  then have "r / 2 powi q < of_int 9007199254740992 + 1 / 2" by linarith
  then have n53: "n \<le> 9007199254740992" unfolding n_def by (rule round_half_even_le)
  show ?thesis
  proof (cases "q = - 53")
    case True
    then have rn: "r = of_int n / 9007199254740992" using r by simp
    with assms(3) have "rat_of_int n < 9007199254740992" by simp
    then have "n < 9007199254740992" by linarith
    then have "n \<le> 9007199254740991" by simp
    then have "rat_of_int n \<le> 9007199254740991" by linarith
    then show ?thesis unfolding rn by (simp add: divide_right_mono)
  next
    case False
    with q53 have "q \<le> - 54" by simp
    then have "(2::rat) powi q \<le> 2 powi (- 54)" by (intro power_int_increasing) simp_all
    then have "(2::rat) powi q \<le> 1 / 18014398509481984" by simp
    moreover have "rat_of_int n \<le> 9007199254740992" using n53 by linarith
    moreover have "0 \<le> rat_of_int n" using pos r p by (simp add: zero_less_mult_iff)
    ultimately have "of_int n * (2::rat) powi q \<le> 9007199254740992 * (1 / 18014398509481984)"
      by (intro mult_mono) simp_all
    then show ?thesis unfolding r by simp
  qed
qed

lemma round_half_even_of_int: "round_half_even (of_int m) = m"
  by (simp add: round_half_even_def)

text \<open>The double of a number whose binary exponent is known.\<close>

lemma to_double_exponent:
  assumes "x \<noteq> 0" "ilog2 \<bar>x\<bar> = e" "e < 1023"
  shows "to_double x =
           Num ((if 0 < x then 1 else - 1)
                * of_int (round_half_even (\<bar>x\<bar> / 2 powi (max (e - 52) (- 1074))))
                * 2 powi (max (e - 52) (- 1074)))"
  using assms by (simp add: to_double_def Let_def)

text \<open>The integers below \<open>2\<^sup>5\<^sup>3\<close> in magnitude are doubles.\<close>

lemma to_double_small_int:
  assumes "\<bar>k\<bar> < 9007199254740992"
  shows "to_double (of_int k) = Num (of_int k)"
proof (cases "k = 0")
  case True
  then show ?thesis by (simp add: to_double_def)
next
  case False
  define a :: rat where "a = of_int \<bar>k\<bar>"
  define e where "e = ilog2 a"
  have a1: "1 \<le> a" using False by (simp add: a_def)
  then have pos: "0 < a" by simp
  have b: "2 powi e \<le> a" "a < 2 powi (e + 1)"
    using ilog2_bounds[OF pos] by (simp_all add: e_def)
  have a53: "a < 2 powi 53" using assms by (simp add: a_def)
  have e52: "e \<le> 52"
  proof (rule ccontr)
    assume "\<not> e \<le> 52"
    then have "(2::rat) powi 53 \<le> 2 powi e" by (intro power_int_increasing) simp_all
    with b(1) a53 show False by simp
  qed
  have e0: "0 \<le> e"
  proof (rule ccontr)
    assume "\<not> 0 \<le> e"
    then have "(2::rat) powi (e + 1) \<le> 2 powi 0" by (intro power_int_increasing) simp_all
    with b(2) a1 show False by simp
  qed
  define t where "t = nat (52 - e)"
  have q: "max (e - 52) (- 1074) = - int t" using e52 e0 by (simp add: t_def)
  have pw: "(2::rat) powi (- int t) = 1 / 2 ^ t" by (simp add: power_int_minus_divide)
  have ak: "\<bar>rat_of_int k\<bar> = a" by (simp add: a_def)
  have "a / (1 / 2 ^ t) = of_int (\<bar>k\<bar> * 2 ^ t)" by (simp add: a_def)
  then have r: "round_half_even (a / (1 / 2 ^ t)) = \<bar>k\<bar> * 2 ^ t"
    by (simp only: round_half_even_of_int)
  have "to_double (of_int k) =
          Num ((if 0 < rat_of_int k then 1 else - 1) * of_int (\<bar>k\<bar> * 2 ^ t) * (1 / 2 ^ t))"
    using to_double_exponent[of "of_int k" e] False e52
    by (simp only: ak e_def[symmetric] q pw r)
  also have "(if 0 < rat_of_int k then 1 else - 1) * of_int (\<bar>k\<bar> * 2 ^ t) * (1 / 2 ^ t)
             = rat_of_int k"
    by (simp add: abs_if)
  finally show ?thesis .
qed

lemma to_double_numeral:
  "(numeral n :: int) < 9007199254740992 \<Longrightarrow> to_double (numeral n) = Num (numeral n)"
  using to_double_small_int[of "numeral n"] by simp

lemma to_double_neg_numeral:
  "(numeral n :: int) < 9007199254740992 \<Longrightarrow> to_double (- numeral n) = Num (- numeral n)"
  using to_double_small_int[of "- numeral n"] by simp

lemma to_double_not_NaN: "to_double x \<noteq> NaN"
  by (simp add: to_double_def Let_def)

text \<open>\<^verbatim>\<open>0.85\<close> is the double nearest to \<open>85/100\<close>.\<close>

lemma double_of_0_85:
  "to_double (85 / 100) = Num (7656119366529843 / 9007199254740992)"
proof -
  have x: "(85 / 100 :: rat) = 17 / 20" by simp
  have i: "ilog2 \<bar>17 / 20\<bar> = - 1"
    by (simp add: ilog2_def floor_rat_numeral ceiling_rat_numeral bit_length.simps)
  show ?thesis
    unfolding x
    by (simp add: to_double_exponent[OF _ i] round_half_even_def Let_def floor_rat_numeral)
qed


section \<open>Properties of the request handlers\<close>

subsection \<open>The frame: method, credential, content type\<close>

lemma action_not_null: "get_prop b k = JStr a \<Longrightarrow> b \<noteq> JNull"
  by auto

lemma json_actions_known:
  assumes "get_prop b ''action'' = JStr a"
  shows "json_actions b e w =
     (if a = ''generateImage'' then generateImage b e w
      else if a = ''startVideoFromUrl'' then startVideoFromUrl b e w
      else if a = ''status'' then status_action b e w
      else thrown ''Invalid action specified.'' [] e)"
  using assms action_not_null[OF assms] by (simp add: json_actions_def)

lemma json_actions_part_000_known:
  assumes "get_prop b ''action'' = JStr a"
  shows "json_actions_part_000 b e w =
     (if a = ''status'' then status_action_part_000 b e w
      else thrown ''Invalid action specified.'' [] e)"
  using assms action_not_null[OF assms] by (simp add: json_actions_part_000_def)

lemma json_post_ai:
  assumes "json_post req e" "json req = Inr b"
  shows "onRequest req e w = caught (json_actions b e w)"
  using assms by (simp add: onRequest_def json_post_def try_block_def)

lemma json_post_part_000:
  assumes "json_post req e" "json req = Inr b"
  shows "onRequest_part_000 req e w = caught (json_actions_part_000 b e w)"
  using assms by (simp add: onRequest_part_000_def json_post_def try_block_part_000_def)

lemma multipart_post_ai:
  assumes "multipart_post req e" "formData req = Inr form"
  shows "onRequest req e w = caught (multipart_submit form e w)"
  using assms by (simp add: onRequest_def multipart_post_def try_block_def)

lemma caught_reply:
  "reply (caught a) =
     (case result a of
        Inl msg \<Rightarrow> jsonResponse (JObj [(''success'', JBool False), (''error'', JStr msg)]) 500
      | Inr r \<Rightarrow> r)"
  by (simp add: caught_def)

lemma thrown_caught:
  "reply (caught (thrown msg cs e)) =
     jsonResponse (JObj [(''success'', JBool False), (''error'', JStr msg)]) 500"
  "upstream (caught (thrown msg cs e)) = cs"
  by (simp_all add: caught_def thrown_def)

lemma jsonResponse_status: "res_status (jsonResponse d st) = st"
  by (simp add: jsonResponse_def)

lemma json_cors_jsonResponse: "json_cors (jsonResponse d st)"
  by (simp add: json_cors_def jsonResponse_def)

lemma error_reply_success:
  "body_prop (jsonResponse (JObj [(''success'', JBool False), (''error'', JStr msg)]) 500) ''success''
     = JBool False"
  by (simp add: body_prop_def jsonResponse_def)

text \<open>The sample inputs are what their names say.\<close>

lemma sample_json_post: "json_post (json_request b) (env_with store)"
  by (simp add: json_post_def json_request_def env_with_def key_missing_def header_or_empty_def)

lemma sample_multipart_post: "multipart_post (multipart_request form) (env_with store)"
  by (simp add: multipart_post_def multipart_request_def env_with_def key_missing_def
        header_or_empty_def)

lemma sample_env:
  "TASK_INFO_KV (env_with store) = store"
  "\<not> key_missing (env_with store)"
  "key_missing env_without_key"
  by (simp_all add: env_with_def env_without_key_def key_missing_def)

lemma sample_upstream_ok:
  "fetch_result (upstream_ok d) = Inr \<lparr>http_status = 200, statusText = ''OK'', json_body = Inr d\<rparr>"
  "ok \<lparr>http_status = 200, statusText = ''OK'', json_body = Inr d\<rparr>"
  "json_body \<lparr>http_status = 200, statusText = ''OK'', json_body = Inr d\<rparr> = Inr d"
  by (simp_all add: upstream_ok_def ok_def)

lemma sample_bodies:
  "json (json_request b) = Inr b"
  "formData (multipart_request form) = Inr form"
  "get_prop status_body ''action'' = JStr ''status''"
  "get_prop status_body ''taskId'' = JStr ''task-1''"
  "truthy (get_prop status_body ''taskId'')"
  "get_prop generate_body ''action'' = JStr ''generateImage''"
  "truthy (get_prop generate_body ''prompt'')"
  by (simp_all add: json_request_def multipart_request_def status_body_def generate_body_def)

lemma sample_generate:
  "get_prop generate_body ''prompt'' = JStr ''a red fox''"
  "get_prop generate_body ''ratio'' = JUndefined"
  "bearer (env_with store) = ''Bearer key_123''"
  "random (upstream_ok d) = 1 / 2"
  by (simp_all add: generate_body_def bearer_def env_with_def upstream_ok_def)

lemma sample_task:
  "d_status (task st p out) = Some st"
  "d_progress (task st p out) = p"
  "d_output (task st p out) = out"
  "d_id (task st p out) = Some ''task-1''"
  "d_error (task st p out) = None"
  by (simp_all add: task_def)

subsection \<open>Preflight and the credential check\<close>

text \<open>
  \<^bold>\<open>Claim C10.\<close> An \<^verbatim>\<open>OPTIONS\<close> request is answered by the preflight response (no body,
  \<^verbatim>\<open>Access-Control-Allow-Methods: POST, OPTIONS\<close>) whatever the environment holds, also
  without the upstream credential; the missing-credential answer is given to \<^verbatim>\<open>POST\<close>
  requests only, and to every \<^verbatim>\<open>POST\<close> request when the credential is missing. Both
  handlers.
\<close>

theorem options_preflight_without_credential:
  "(req_method req = ''OPTIONS'' \<longrightarrow>
      reply (onRequest req e w) = preflight \<and> reply (onRequest_part_000 req e w) = preflight)
   \<and> res_body preflight = No_body
   \<and> map_of (res_headers preflight) ''Access-Control-Allow-Methods'' = Some ''POST, OPTIONS''
   \<and> (reply (onRequest req e w) = key_error_response \<longrightarrow> req_method req = ''POST'')
   \<and> (reply (onRequest_part_000 req e w)
         = jsonResponse (JObj [(''success'', JBool False), (''error'', JStr key_error_msg_part_000)]) 500
       \<longrightarrow> req_method req = ''POST'')
   \<and> (req_method req = ''POST'' \<and> key_missing e \<longrightarrow>
        reply (onRequest req e w) = key_error_response
        \<and> reply (onRequest_part_000 req e w)
            = jsonResponse (JObj [(''success'', JBool False), (''error'', JStr key_error_msg_part_000)]) 500)"
  by (simp add: onRequest_def onRequest_part_000_def quiet_def preflight_def method_not_allowed_def
        key_error_response_def jsonResponse_def)

theorem options_preflight_without_credential_witness:
  "reply (onRequest (bare_request ''OPTIONS'') env_without_key offline) = preflight
   \<and> reply (onRequest_part_000 (bare_request ''OPTIONS'') env_without_key offline) = preflight
   \<and> reply (onRequest (bare_request ''POST'') env_without_key offline) = key_error_response"
proof -
  have m: "req_method (bare_request ''OPTIONS'') = ''OPTIONS''" "req_method (bare_request ''POST'') = ''POST''"
    by (simp_all add: bare_request_def)
  have k: "key_missing env_without_key"
    by (simp add: key_missing_def env_without_key_def)
  show ?thesis
    using options_preflight_without_credential[of "bare_request ''OPTIONS''" env_without_key offline]
          options_preflight_without_credential[of "bare_request ''POST''" env_without_key offline]
    by (simp add: m k)
qed

subsection \<open>The \<^verbatim>\<open>status\<close> action\<close>

text \<open>
  \<^bold>\<open>Claim C1.\<close> What \<^verbatim>\<open>functions/ai.js\<close> answers to a \<^verbatim>\<open>status\<close> action when the upstream
  reports \<^verbatim>\<open>SUCCEEDED\<close> with an empty output array: the test of its first branch fails and the
  request falls through to the progress payload, \<^verbatim>\<open>{success: true, status: "SUCCEEDED",
  progress}\<close>, not the failure payload the claim names.
\<close>

theorem ai_succeeded_empty_output_progress_payload:
  assumes "json_post req e" "json req = Inr b" "get_prop b ''action'' = JStr ''status''"
    and "truthy (get_prop b ''taskId'')"
    and "fetch_result w = Inr resp" "ok resp" "json_body resp = Inr data"
    and "d_status data = Some ''SUCCEEDED''" "d_output data = Some []"
  shows "reply (onRequest req e w) =
           jsonResponse (JObj [(''success'', JBool True), (''status'', JStr ''SUCCEEDED''),
                               (''progress'', opt_num (d_progress data))]) 200"
  using assms
  by (simp add: json_post_ai json_actions_known caught_def status_action_def first_output_def
        opt_str_def)

theorem ai_succeeded_empty_output_progress_payload_witness:
  "reply (onRequest (json_request status_body) (env_with None)
            (upstream_ok (task ''SUCCEEDED'' (Some 1) (Some []))))
     = \<lparr>res_status = 200,
        res_headers = [(''Content-Type'', ''application/json''), (''Access-Control-Allow-Origin'', ''*'')],
        res_body = Json (JObj [(''success'', JBool True), (''status'', JStr ''SUCCEEDED''),
                               (''progress'', JNum (Num 1))])\<rparr>"
  using ai_succeeded_empty_output_progress_payload
          [OF sample_json_post sample_bodies(1) sample_bodies(3) sample_bodies(5)
              sample_upstream_ok sample_task(1) sample_task(3), of None "Some 1"]
  by (simp add: sample_task opt_num_def jsonResponse_def)

text \<open>The sibling handler answers the same poll with the failure payload (HTTP 200).\<close>

lemma part_000_succeeded_empty_output_failed:
  assumes "json_post req e" "json req = Inr b" "get_prop b ''action'' = JStr ''status''"
    and "truthy (get_prop b ''taskId'')"
    and "fetch_result w = Inr resp" "ok resp" "json_body resp = Inr data"
    and "d_status data = Some ''SUCCEEDED''" "d_output data = Some []"
  shows "reply (onRequest_part_000 req e w) =
           jsonResponse (JObj [(''success'', JBool False), (''status'', JStr ''FAILED''),
                               (''error'', JStr ''Task succeeded but output was empty.'')]) 200"
  using assms
  by (simp add: json_post_part_000 json_actions_part_000_known caught_def
        status_action_part_000_def first_output_def opt_str_def)

text \<open>
  \<^bold>\<open>Claim C2\<close>, as amended. A \<^verbatim>\<open>status\<close> action sees \<^verbatim>\<open>SUCCEEDED\<close> with a first output URL
  and no metadata record for the task id (the store is not configured, or holds nothing under
  the id). \<^verbatim>\<open>functions/ai.js\<close> then keeps the default kind \<^verbatim>\<open>'video'\<close>: nothing is thrown
  and the URL is returned under \<^verbatim>\<open>videoUrl\<close>. The image-only sibling keeps no metadata at
  all and returns the URL under \<^verbatim>\<open>imageUrl\<close>, also without throwing.
\<close>

theorem status_without_record:
  assumes "json_post req e" "json req = Inr b" "get_prop b ''action'' = JStr ''status''"
    and "truthy (get_prop b ''taskId'')"
    and "fetch_result w = Inr resp" "ok resp" "json_body resp = Inr data"
    and "d_status data = Some ''SUCCEEDED''" "d_output data = Some (u # us)" "u \<noteq> []"
    and "no_record e (get_prop b ''taskId'')"
  shows "result (try_block req e w) =
           Inr (jsonResponse (JObj [(''success'', JBool True), (''status'', JStr ''SUCCEEDED''),
                  (''progress'', opt_num (d_progress data)), (''videoUrl'', JStr u)]) 200)
         \<and> reply (onRequest req e w) =
           jsonResponse (JObj [(''success'', JBool True), (''status'', JStr ''SUCCEEDED''),
                  (''progress'', opt_num (d_progress data)), (''videoUrl'', JStr u)]) 200
         \<and> reply (onRequest_part_000 req e w) =
           jsonResponse (JObj [(''success'', JBool True), (''status'', JStr ''SUCCEEDED''),
                  (''progress'', opt_num (d_progress data)), (''imageUrl'', JStr u)]) 200"
proof -
  have t: "try_block req e w = status_action b e w"
    using assms(1,2,3) by (simp add: json_post_def try_block_def json_actions_known)
  have r: "result (status_action b e w) =
           Inr (jsonResponse (JObj [(''success'', JBool True), (''status'', JStr ''SUCCEEDED''),
                  (''progress'', opt_num (d_progress data)), (''videoUrl'', JStr u)]) 200)"
    using assms(4-11)
    by (auto simp: status_action_def Let_def first_output_def opt_str_def no_record_def
          split: option.splits)
  have s: "reply (onRequest_part_000 req e w) =
           jsonResponse (JObj [(''success'', JBool True), (''status'', JStr ''SUCCEEDED''),
                  (''progress'', opt_num (d_progress data)), (''imageUrl'', JStr u)]) 200"
    using assms(1-10)
    by (simp add: json_post_part_000 json_actions_part_000_known caught_def
          status_action_part_000_def first_output_def opt_str_def)
  show ?thesis
    using assms(1) t r s by (simp add: onRequest_def json_post_def caught_def)
qed

theorem status_without_record_witness:
  "reply (onRequest (json_request status_body) (env_with (Some Map.empty))
            (upstream_ok (task ''SUCCEEDED'' None (Some [''https://x/y.mp4'']))))
     = \<lparr>res_status = 200,
        res_headers = [(''Content-Type'', ''application/json''), (''Access-Control-Allow-Origin'', ''*'')],
        res_body = Json (JObj [(''success'', JBool True), (''status'', JStr ''SUCCEEDED''),
                               (''videoUrl'', JStr ''https://x/y.mp4'')])\<rparr>"
proof -
  have n: "no_record (env_with (Some Map.empty)) (get_prop status_body ''taskId'')"
    by (simp add: no_record_def sample_env)
  have u: "''https://x/y.mp4'' \<noteq> []" by simp
  show ?thesis
    using status_without_record
            [OF sample_json_post sample_bodies(1) sample_bodies(3) sample_bodies(5)
                sample_upstream_ok sample_task(1)[where p = None] sample_task(3) u n]
    by (simp add: sample_task opt_num_def jsonResponse_def)
qed

text \<open>The same poll, sent to the sibling handler: no \<^verbatim>\<open>videoUrl\<close> in the answer.\<close>

theorem part_000_status_answers_imageUrl:
  "body_prop (reply (onRequest_part_000 (json_request status_body) (env_with None)
                (upstream_ok (task ''SUCCEEDED'' None (Some [''https://x/y.mp4''])))))
       ''videoUrl'' = JUndefined
   \<and> body_prop (reply (onRequest_part_000 (json_request status_body) (env_with None)
                (upstream_ok (task ''SUCCEEDED'' None (Some [''https://x/y.mp4''])))))
       ''imageUrl'' = JStr ''https://x/y.mp4''"
proof -
  have "reply (onRequest_part_000 (json_request status_body) (env_with None)
                (upstream_ok (task ''SUCCEEDED'' None (Some [''https://x/y.mp4'']))))
        = jsonResponse (JObj [(''success'', JBool True), (''status'', JStr ''SUCCEEDED''),
                  (''progress'', JUndefined), (''imageUrl'', JStr ''https://x/y.mp4'')]) 200"
    by (simp add: json_post_part_000[OF sample_json_post sample_bodies(1)]
          json_actions_part_000_known[OF sample_bodies(3)] caught_def status_action_part_000_def
          sample_bodies sample_upstream_ok sample_task first_output_def opt_str_def opt_num_def)
  then show ?thesis
    by (simp add: body_prop_def jsonResponse_def)
qed

text \<open>
  \<^bold>\<open>Claim C5\<close>, as amended. A \<^verbatim>\<open>status\<close> action on \<^verbatim>\<open>functions/ai.js\<close> sees \<^verbatim>\<open>SUCCEEDED\<close>
  with output \<^verbatim>\<open>["https://x/y.png"]\<close> and a stored record of type \<^verbatim>\<open>image\<close> for the task id.
  The answer is \<^verbatim>\<open>{success: true, status: "SUCCEEDED", progress, imageUrl: "https://x/y.png"}\<close>
  where \<^verbatim>\<open>progress\<close> is whatever the upstream reported (\<open>1\<close> when it reported \<open>1\<close>, absent when
  it reported none). The deletion of the record is handed to \<^verbatim>\<open>context.waitUntil\<close>: the store
  is unchanged when the response is returned, and the record is gone once the scheduled
  deletion has run.
\<close>

theorem image_status_relays_progress:
  assumes "json_post req e" "json req = Inr b" "get_prop b ''action'' = JStr ''status''"
    and "truthy (get_prop b ''taskId'')"
    and "fetch_result w = Inr resp" "ok resp" "json_body resp = Inr data"
    and "d_status data = Some ''SUCCEEDED''" "d_output data = Some [''https://x/y.png'']"
    and "TASK_INFO_KV e = Some m" "m (get_prop b ''taskId'') = Some info"
    and "get_prop info ''type'' = JStr ''image''"
  shows "reply (onRequest req e w) =
           jsonResponse (JObj [(''success'', JBool True), (''status'', JStr ''SUCCEEDED''),
                  (''progress'', opt_num (d_progress data)),
                  (''imageUrl'', JStr ''https://x/y.png'')]) 200
         \<and> scheduled (onRequest req e w) = [get_prop b ''taskId'']
         \<and> kv_after (onRequest req e w) = Some m
         \<and> run_scheduled (onRequest req e w) = Some (m(get_prop b ''taskId'' := None))"
proof -
  have t: "onRequest req e w = caught (status_action b e w)"
    using assms(1,2,3) by (simp add: json_post_ai json_actions_known)
  have a: "status_action b e w =
      \<lparr>result = Inr (jsonResponse (JObj [(''success'', JBool True), (''status'', JStr ''SUCCEEDED''),
                  (''progress'', opt_num (d_progress data)),
                  (''imageUrl'', JStr ''https://x/y.png'')]) 200),
       calls = [\<lparr>endpoint = Tasks (get_prop b ''taskId''), verb = ''GET'',
                  authorization = bearer e, payload = None\<rparr>],
       kv = Some m, deferred = [get_prop b ''taskId'']\<rparr>"
    using assms(4-12) by (simp add: status_action_def Let_def first_output_def opt_str_def)
  show ?thesis
    unfolding t a by (simp add: caught_def run_scheduled_def)
qed

theorem image_status_relays_progress_witness:
  "reply (onRequest (json_request status_body) (env_with (Some image_store))
            (upstream_ok (task ''SUCCEEDED'' (Some 1) (Some [''https://x/y.png'']))))
     = \<lparr>res_status = 200,
        res_headers = [(''Content-Type'', ''application/json''), (''Access-Control-Allow-Origin'', ''*'')],
        res_body = Json (JObj [(''success'', JBool True), (''status'', JStr ''SUCCEEDED''),
                               (''progress'', JNum (Num 1)),
                               (''imageUrl'', JStr ''https://x/y.png'')])\<rparr>
   \<and> scheduled (onRequest (json_request status_body) (env_with (Some image_store))
            (upstream_ok (task ''SUCCEEDED'' (Some 1) (Some [''https://x/y.png''])))) = [JStr ''task-1'']
   \<and> run_scheduled (onRequest (json_request status_body) (env_with (Some image_store))
            (upstream_ok (task ''SUCCEEDED'' (Some 1) (Some [''https://x/y.png''])))) = Some Map.empty"
proof -
  have i: "image_store (get_prop status_body ''taskId'') = Some (JObj [(''type'', JStr ''image'')])"
    by (simp add: image_store_def sample_bodies)
  have ty: "get_prop (JObj [(''type'', JStr ''image'')]) ''type'' = JStr ''image''"
    by simp
  show ?thesis
    using image_status_relays_progress
            [where m = image_store,
             OF sample_json_post sample_bodies(1) sample_bodies(3) sample_bodies(5)
                sample_upstream_ok sample_task(1)[where p = "Some 1"] sample_task(3)
                sample_env(1) i ty]
    by (simp add: sample_task sample_bodies opt_num_def jsonResponse_def image_store_def)
qed

text \<open>The same poll when the upstream reports no progress on a finished task: the answer
  has no \<^verbatim>\<open>progress\<close> property, so it is not the payload with \<^verbatim>\<open>progress: 1\<close>.\<close>

theorem image_status_without_upstream_progress:
  "body_prop (reply (onRequest (json_request status_body) (env_with (Some image_store))
                (upstream_ok (task ''SUCCEEDED'' None (Some [''https://x/y.png''])))))
       ''progress'' = JUndefined
   \<and> res_body (reply (onRequest (json_request status_body) (env_with (Some image_store))
                (upstream_ok (task ''SUCCEEDED'' None (Some [''https://x/y.png''])))))
       = Json (JObj [(''success'', JBool True), (''status'', JStr ''SUCCEEDED''),
                     (''imageUrl'', JStr ''https://x/y.png'')])"
proof -
  have "reply (onRequest (json_request status_body) (env_with (Some image_store))
                (upstream_ok (task ''SUCCEEDED'' None (Some [''https://x/y.png'']))))
        = jsonResponse (JObj [(''success'', JBool True), (''status'', JStr ''SUCCEEDED''),
                  (''progress'', JUndefined), (''imageUrl'', JStr ''https://x/y.png'')]) 200"
    by (simp add: json_post_ai[OF sample_json_post sample_bodies(1)]
          json_actions_known[OF sample_bodies(3)] caught_def status_action_def Let_def
          sample_bodies sample_upstream_ok sample_task first_output_def opt_str_def opt_num_def
          sample_env image_store_def)
  then show ?thesis
    by (simp add: body_prop_def jsonResponse_def)
qed

subsection \<open>Submissions\<close>

text \<open>
  \<^bold>\<open>Claim C6.\<close> A \<^verbatim>\<open>generateImage\<close> action with a prompt, answered by the upstream with a
  success status and an id: the handler of \<^verbatim>\<open>functions/ai.js\<close> makes one \<^verbatim>\<open>text_to_image\<close>
  call and returns \<^verbatim>\<open>{success: true, taskId}\<close> with the upstream's id; when the metadata store
  is configured it holds the record \<^verbatim>\<open>{type: 'image'}\<close> under that id afterwards, everything
  else in it unchanged.
\<close>

theorem generateImage_stores_image_record:
  assumes "json_post req e" "json req = Inr b" "get_prop b ''action'' = JStr ''generateImage''"
    and "truthy (get_prop b ''prompt'')"
    and "fetch_result w = Inr resp" "ok resp" "json_body resp = Inr data"
    and "d_id data = Some tid"
  shows "reply (onRequest req e w) =
           jsonResponse (JObj [(''success'', JBool True), (''taskId'', JStr tid)]) 200
         \<and> kv_after (onRequest req e w) =
             (case TASK_INFO_KV e of
                None \<Rightarrow> None
              | Some m \<Rightarrow> Some (m(JStr tid \<mapsto> JObj [(''type'', JStr ''image'')])))
         \<and> map endpoint (upstream (onRequest req e w)) = [Text_to_image]"
proof -
  have t: "onRequest req e w = caught (generateImage b e w)"
    using assms(1,2,3) by (simp add: json_post_ai json_actions_known)
  show ?thesis
    unfolding t using assms(4-8)
    by (simp add: caught_def generateImage_def Let_def opt_str_def split: option.splits)
qed

theorem generateImage_stores_image_record_witness:
  "reply (onRequest (json_request generate_body) (env_with (Some Map.empty))
            (upstream_ok (task ''PENDING'' None None)))
     = \<lparr>res_status = 200,
        res_headers = [(''Content-Type'', ''application/json''), (''Access-Control-Allow-Origin'', ''*'')],
        res_body = Json (JObj [(''success'', JBool True), (''taskId'', JStr ''task-1'')])\<rparr>
   \<and> kv_after (onRequest (json_request generate_body) (env_with (Some Map.empty))
            (upstream_ok (task ''PENDING'' None None)))
     = Some [JStr ''task-1'' \<mapsto> JObj [(''type'', JStr ''image'')]]"
  using generateImage_stores_image_record
          [OF sample_json_post[where store = "Some Map.empty"] sample_bodies(1) sample_bodies(6)
              sample_bodies(7) sample_upstream_ok
              sample_task(4)[where st = "''PENDING''" and p = None and out = None]]
  by (simp add: sample_env jsonResponse_def)

text \<open>A malformed submission throws before any upstream call.\<close>

lemma malformed_try_block:
  assumes "malformed_submission req"
  shows "\<exists>msg. try_block req e w = thrown msg [] e"
    and "\<exists>msg. try_block_part_000 req e w = thrown msg [] e"
  using assms
  by (auto simp: malformed_submission_def try_block_def try_block_part_000_def Let_def
        multipart_submit_def multipart_submit_part_000_def json_actions_known
        json_actions_part_000_known generateImage_def startVideoFromUrl_def
        split: sum.splits if_splits)

text \<open>
  \<^bold>\<open>Claim C4.\<close> A \<^verbatim>\<open>POST\<close> whose submission is malformed (a multipart body without prompt or
  image; a JSON \<^verbatim>\<open>generateImage\<close> without prompt; a JSON \<^verbatim>\<open>startVideoFromUrl\<close> without
  \<^verbatim>\<open>videoPrompt\<close> or \<^verbatim>\<open>imageUrl\<close>) is answered with \<^verbatim>\<open>success: false\<close> (HTTP 500), and no
  upstream call is made: neither \<^verbatim>\<open>text_to_image\<close> nor \<^verbatim>\<open>image_to_video\<close> nor any other.
  Both handlers, with or without the credential.
\<close>

theorem malformed_submission_no_upstream_call:
  assumes "req_method req = ''POST''" "malformed_submission req"
  shows "upstream (onRequest req e w) = []
         \<and> body_prop (reply (onRequest req e w)) ''success'' = JBool False
         \<and> res_status (reply (onRequest req e w)) = 500
         \<and> upstream (onRequest_part_000 req e w) = []
         \<and> body_prop (reply (onRequest_part_000 req e w)) ''success'' = JBool False
         \<and> res_status (reply (onRequest_part_000 req e w)) = 500"
proof (cases "key_missing e")
  case True
  then show ?thesis
    using assms(1)
    by (simp add: onRequest_def onRequest_part_000_def quiet_def key_error_response_def
          body_prop_def jsonResponse_def)
next
  case False
  obtain m1 m2 where t: "try_block req e w = thrown m1 [] e"
      "try_block_part_000 req e w = thrown m2 [] e"
    using malformed_try_block[OF assms(2)] by blast
  show ?thesis
    using assms(1) False
    by (simp add: onRequest_def onRequest_part_000_def t thrown_caught error_reply_success
          jsonResponse_status)
qed

theorem malformed_submission_no_upstream_call_witness:
  "upstream (onRequest (multipart_request [(''prompt'', JStr ''a cat'')]) (env_with None) offline) = []
   \<and> body_prop (reply (onRequest (multipart_request [(''prompt'', JStr ''a cat'')]) (env_with None)
                         offline)) ''success'' = JBool False
   \<and> upstream (onRequest (json_request (JObj [(''action'', JStr ''startVideoFromUrl''),
                                               (''videoPrompt'', JStr ''pan left'')]))
                (env_with None) offline) = []"
proof -
  have m: "req_method (multipart_request [(''prompt'', JStr ''a cat'')]) = ''POST''"
    "req_method (json_request (JObj [(''action'', JStr ''startVideoFromUrl''),
                                     (''videoPrompt'', JStr ''pan left'')])) = ''POST''"
    by (simp_all add: multipart_request_def json_request_def)
  have f: "malformed_submission (multipart_request [(''prompt'', JStr ''a cat'')])"
    by (simp add: malformed_submission_def multipart_request_def header_or_empty_def form_get_def)
  have g: "malformed_submission (json_request (JObj [(''action'', JStr ''startVideoFromUrl''),
                                                      (''videoPrompt'', JStr ''pan left'')]))"
    by (simp add: malformed_submission_def json_request_def header_or_empty_def)
  show ?thesis
    using malformed_submission_no_upstream_call[OF m(1) f, of "env_with None" offline]
          malformed_submission_no_upstream_call[OF m(2) g, of "env_with None" offline]
    by simp
qed

text \<open>\<^verbatim>\<open>parseInt\<close> answers \<open>NaN\<close> exactly on the strings without a decimal integer prefix.\<close>

lemma parseInt10_NaN: "\<not> decimal_integer_prefix d \<Longrightarrow> parseInt10 d = NaN"
  by (cases "strip_sign (dropWhile is_ws d)")
     (auto simp: decimal_integer_prefix_def parseInt10_def split: list.splits)

lemma parseInt10_Num: "decimal_integer_prefix d \<Longrightarrow> parseInt10 d \<noteq> NaN"
  by (cases "strip_sign (dropWhile is_ws d)")
     (auto simp: decimal_integer_prefix_def parseInt10_def to_double_not_NaN split: list.splits)

text \<open>What \<^verbatim>\<open>parseInt\<close> reads: the digits up to the first other character, after white space
  (the no-break space included) and a sign.\<close>

lemma parseInt10_samples:
  "parseInt10 ''5'' = Num 5"
  "parseInt10 ''10'' = Num 10"
  "parseInt10 ''-3'' = Num (- 3)"
  "parseInt10 ''+7'' = Num 7"
  "parseInt10 [CHR 0xA0, CHR ''7'', CHR ''s''] = Num 7"
  "parseInt10 '' 12.9px'' = Num 12"
  by (simp_all add: parseInt10_def strip_sign_def is_ws_def is_digit_def digits_value_def
        to_double_numeral to_double_neg_numeral)

text \<open>The one call of \<^verbatim>\<open>startImageToVideoJob\<close> carries the duration it was given, as
  \<^verbatim>\<open>JSON.stringify\<close> writes it.\<close>

lemma upstream_duration:
  "map (\<lambda>c. map_option (\<lambda>p. get_prop p ''duration'') (payload c))
       (upstream (caught (startImageToVideoJob i p dur r n e w)))
     = [Some (JSON_stringify (JNum dur))]"
  by (simp add: caught_def startImageToVideoJob_def Let_def thrown_def split: sum.splits)

lemma sample_duration_form:
  "truthy (form_get (duration_form v) ''prompt'')"
  "form_get (duration_form v) ''image'' = JFile small_png"
  "form_get (duration_form v) ''duration'' = v"
  "form_get (duration_form v) ''ratio'' = JNull"
  "length (fbytes small_png) \<le> arg_limit offline"
  by (simp_all add: duration_form_def form_get_def small_png_def offline_def)

text \<open>
  \<^bold>\<open>Claim C9.\<close> A multipart submission on \<^verbatim>\<open>functions/ai.js\<close> that reaches the upstream call
  (prompt present, image a file within the engine's argument limit). When the \<^verbatim>\<open>duration\<close>
  field is a non-empty string without a decimal integer prefix, the handler passes \<open>NaN\<close>
  (\<^verbatim>\<open>parseInt\<close> of the field), not the default, to \<^verbatim>\<open>startImageToVideoJob\<close>, whose request body
  then carries \<^verbatim>\<open>duration: null\<close>, the JSON rendering of \<open>NaN\<close>. The default \<open>5\<close> is passed when
  the field is absent or empty, and only then: whenever the field is a non-empty string, what
  is passed is \<^verbatim>\<open>parseInt\<close> of the field itself, which is \<open>NaN\<close> exactly when the string has no
  decimal integer prefix (the field \<^verbatim>\<open>10\<close> passes \<open>10\<close>, \<^verbatim>\<open>-3\<close> passes \<open>-3\<close>, a no-break
  space before \<^verbatim>\<open>7s\<close> passes \<open>7\<close>); a file in the field passes \<open>NaN\<close> too.
\<close>

theorem unparseable_duration_NaN:
  assumes "multipart_post req e" "formData req = Inr form"
    and "truthy (form_get form ''prompt'')" "form_get form ''image'' = JFile f"
    and "length (fbytes f) \<le> arg_limit w"
  shows "(form_get form ''duration'' = JStr d \<and> d \<noteq> [] \<and> \<not> decimal_integer_prefix d \<longrightarrow>
            onRequest req e w =
              caught (startImageToVideoJob
                        (JStr (''data:'' @ ftype f @ '';base64,'' @ btoa (fbytes f)))
                        (form_get form ''prompt'') NaN
                        (js_or (form_get form ''ratio'') (JStr ''1280:720'')) (fname f) e w)
            \<and> map (\<lambda>c. map_option (\<lambda>p. get_prop p ''duration'') (payload c))
                   (upstream (onRequest req e w)) = [Some JNull])
         \<and> (form_get form ''duration'' = JNull \<or> form_get form ''duration'' = JStr [] \<longrightarrow>
            onRequest req e w =
              caught (startImageToVideoJob
                        (JStr (''data:'' @ ftype f @ '';base64,'' @ btoa (fbytes f)))
                        (form_get form ''prompt'') (Num 5)
                        (js_or (form_get form ''ratio'') (JStr ''1280:720'')) (fname f) e w)
            \<and> map (\<lambda>c. map_option (\<lambda>p. get_prop p ''duration'') (payload c))
                   (upstream (onRequest req e w)) = [Some (JNum (Num 5))])
         \<and> (form_get form ''duration'' = JStr d \<and> d \<noteq> [] \<longrightarrow>
            onRequest req e w =
              caught (startImageToVideoJob
                        (JStr (''data:'' @ ftype f @ '';base64,'' @ btoa (fbytes f)))
                        (form_get form ''prompt'') (parseInt10 d)
                        (js_or (form_get form ''ratio'') (JStr ''1280:720'')) (fname f) e w)
            \<and> (parseInt10 d = NaN \<longleftrightarrow> \<not> decimal_integer_prefix d))
         \<and> (form_get form ''duration'' = JStr ''10'' \<longrightarrow>
            map (\<lambda>c. map_option (\<lambda>p. get_prop p ''duration'') (payload c))
                (upstream (onRequest req e w)) = [Some (JNum (Num 10))])
         \<and> (form_get form ''duration'' = JStr ''-3'' \<longrightarrow>
            map (\<lambda>c. map_option (\<lambda>p. get_prop p ''duration'') (payload c))
                (upstream (onRequest req e w)) = [Some (JNum (Num (- 3)))])
         \<and> (form_get form ''duration'' = JStr [CHR 0xA0, CHR ''7'', CHR ''s''] \<longrightarrow>
            map (\<lambda>c. map_option (\<lambda>p. get_prop p ''duration'') (payload c))
                (upstream (onRequest req e w)) = [Some (JNum (Num 7))])
         \<and> (form_get form ''duration'' = JFile g \<longrightarrow>
            onRequest req e w =
              caught (startImageToVideoJob
                        (JStr (''data:'' @ ftype f @ '';base64,'' @ btoa (fbytes f)))
                        (form_get form ''prompt'') NaN
                        (js_or (form_get form ''ratio'') (JStr ''1280:720'')) (fname f) e w))"
proof -
  let ?url = "JStr (''data:'' @ ftype f @ '';base64,'' @ btoa (fbytes f))"
  let ?ratio = "js_or (form_get form ''ratio'') (JStr ''1280:720'')"
  let ?dur = "parseInt_of (js_or (form_get form ''duration'') (JStr ''5''))"
  have t: "onRequest req e w =
             caught (startImageToVideoJob ?url (form_get form ''prompt'') ?dur ?ratio (fname f) e w)"
    using assms by (simp add: multipart_post_ai multipart_submit_def Let_def)
  have str: "?dur = parseInt10 d" if "form_get form ''duration'' = JStr d" "d \<noteq> []"
    using that by (simp add: js_or_def)
  have nan: "?dur = NaN"
    if "form_get form ''duration'' = JStr d" "d \<noteq> []" "\<not> decimal_integer_prefix d"
    using that by (simp add: js_or_def parseInt10_NaN)
  have dflt: "?dur = Num 5"
    if "form_get form ''duration'' = JNull \<or> form_get form ''duration'' = JStr []"
    using that parseInt10_samples(1) by (auto simp: js_or_def)
  have iff: "parseInt10 d = NaN \<longleftrightarrow> \<not> decimal_integer_prefix d"
    using parseInt10_NaN parseInt10_Num by blast
  have ten: "?dur = Num 10" if "form_get form ''duration'' = JStr ''10''"
    using that by (simp add: js_or_def parseInt10_samples)
  have neg: "?dur = Num (- 3)" if "form_get form ''duration'' = JStr ''-3''"
    using that by (simp add: js_or_def parseInt10_samples)
  have nbsp: "?dur = Num 7" if "form_get form ''duration'' = JStr [CHR 0xA0, CHR ''7'', CHR ''s'']"
    using that by (simp add: js_or_def parseInt10_samples)
  have fl: "?dur = NaN" if "form_get form ''duration'' = JFile g"
    using that by (simp add: js_or_def)
  have c1: "form_get form ''duration'' = JStr d \<and> d \<noteq> [] \<and> \<not> decimal_integer_prefix d \<longrightarrow>
            onRequest req e w =
              caught (startImageToVideoJob ?url (form_get form ''prompt'') NaN ?ratio (fname f) e w)
            \<and> map (\<lambda>c. map_option (\<lambda>p. get_prop p ''duration'') (payload c))
                   (upstream (onRequest req e w)) = [Some JNull]"
    using nan by (auto simp: t upstream_duration)
  have c2: "form_get form ''duration'' = JNull \<or> form_get form ''duration'' = JStr [] \<longrightarrow>
            onRequest req e w =
              caught (startImageToVideoJob ?url (form_get form ''prompt'') (Num 5) ?ratio (fname f) e w)
            \<and> map (\<lambda>c. map_option (\<lambda>p. get_prop p ''duration'') (payload c))
                   (upstream (onRequest req e w)) = [Some (JNum (Num 5))]"
    using dflt by (auto simp: t upstream_duration)
  have c3: "form_get form ''duration'' = JStr d \<and> d \<noteq> [] \<longrightarrow>
            onRequest req e w =
              caught (startImageToVideoJob ?url (form_get form ''prompt'') (parseInt10 d) ?ratio
                        (fname f) e w)
            \<and> (parseInt10 d = NaN \<longleftrightarrow> \<not> decimal_integer_prefix d)"
    using str iff by (simp add: t)
  have c4: "form_get form ''duration'' = JStr ''10'' \<longrightarrow>
            map (\<lambda>c. map_option (\<lambda>p. get_prop p ''duration'') (payload c))
                (upstream (onRequest req e w)) = [Some (JNum (Num 10))]"
    using ten by (simp add: t upstream_duration)
  have c5: "form_get form ''duration'' = JStr ''-3'' \<longrightarrow>
            map (\<lambda>c. map_option (\<lambda>p. get_prop p ''duration'') (payload c))
                (upstream (onRequest req e w)) = [Some (JNum (Num (- 3)))]"
    using neg by (simp add: t upstream_duration)
  have c6: "form_get form ''duration'' = JStr [CHR 0xA0, CHR ''7'', CHR ''s''] \<longrightarrow>
            map (\<lambda>c. map_option (\<lambda>p. get_prop p ''duration'') (payload c))
                (upstream (onRequest req e w)) = [Some (JNum (Num 7))]"
    using nbsp by (simp add: t upstream_duration)
  have c7: "form_get form ''duration'' = JFile g \<longrightarrow>
            onRequest req e w =
              caught (startImageToVideoJob ?url (form_get form ''prompt'') NaN ?ratio (fname f) e w)"
    using fl by (simp add: t)
  show ?thesis
    using c1 c2 c3 c4 c5 c6 c7 by blast
qed

theorem unparseable_duration_NaN_witness:
  "onRequest (multipart_request [(''prompt'', JStr ''a cat''), (''image'', JFile small_png),
                                  (''duration'', JStr ''ten'')]) (env_with None) offline
     = caught (startImageToVideoJob (JStr ''data:image/png;base64,TWFu'') (JStr ''a cat'') NaN
                 (JStr ''1280:720'') ''cat.png'' (env_with None) offline)
   \<and> onRequest (multipart_request [(''prompt'', JStr ''a cat''), (''image'', JFile small_png)])
        (env_with None) offline
     = caught (startImageToVideoJob (JStr ''data:image/png;base64,TWFu'') (JStr ''a cat'') (Num 5)
                 (JStr ''1280:720'') ''cat.png'' (env_with None) offline)
   \<and> onRequest (multipart_request (duration_form (JStr ''10 seconds''))) (env_with None) offline
     = caught (startImageToVideoJob (JStr ''data:image/png;base64,TWFu'') (JStr ''a cat'')
                 (parseInt10 ''10 seconds'') (JStr ''1280:720'') ''cat.png'' (env_with None) offline)
   \<and> parseInt10 ''10 seconds'' \<noteq> NaN
   \<and> map (\<lambda>c. map_option (\<lambda>p. get_prop p ''duration'') (payload c))
          (upstream (onRequest (multipart_request (duration_form (JStr ''ten'')))
                       (env_with None) offline)) = [Some JNull]
   \<and> map (\<lambda>c. map_option (\<lambda>p. get_prop p ''duration'') (payload c))
          (upstream (onRequest (multipart_request (duration_form (JStr [])))
                       (env_with None) offline)) = [Some (JNum (Num 5))]
   \<and> map (\<lambda>c. map_option (\<lambda>p. get_prop p ''duration'') (payload c))
          (upstream (onRequest (multipart_request (duration_form (JStr ''10'')))
                       (env_with None) offline)) = [Some (JNum (Num 10))]
   \<and> map (\<lambda>c. map_option (\<lambda>p. get_prop p ''duration'') (payload c))
          (upstream (onRequest (multipart_request (duration_form (JStr ''-3'')))
                       (env_with None) offline)) = [Some (JNum (Num (- 3)))]
   \<and> map (\<lambda>c. map_option (\<lambda>p. get_prop p ''duration'') (payload c))
          (upstream (onRequest (multipart_request (duration_form (JStr [CHR 0xA0, CHR ''7'', CHR ''s''])))
                       (env_with None) offline)) = [Some (JNum (Num 7))]
   \<and> onRequest (multipart_request (duration_form (JFile small_png))) (env_with None) offline
     = caught (startImageToVideoJob (JStr ''data:image/png;base64,TWFu'') (JStr ''a cat'') NaN
                 (JStr ''1280:720'') ''cat.png'' (env_with None) offline)"
proof -
  let ?form1 = "[(''prompt'', JStr ''a cat''), (''image'', JFile small_png), (''duration'', JStr ''ten'')]"
  let ?form2 = "[(''prompt'', JStr ''a cat''), (''image'', JFile small_png)]"
  let ?job = "\<lambda>dur. caught (startImageToVideoJob (JStr ''data:image/png;base64,TWFu'')
                          (JStr ''a cat'') dur (JStr ''1280:720'') ''cat.png'' (env_with None) offline)"
  have p: "truthy (form_get ?form1 ''prompt'')" "truthy (form_get ?form2 ''prompt'')"
    by (simp_all add: form_get_def)
  have i: "form_get ?form1 ''image'' = JFile small_png" "form_get ?form2 ''image'' = JFile small_png"
    by (simp_all add: form_get_def)
  note l = sample_duration_form(5)
  note s = sample_multipart_post[where store = None] sample_bodies(2)
  note f = sample_duration_form(1) sample_duration_form(2)
  note ev = form_get_def duration_form_def js_or_def small_png_def b64_char_def
    decimal_integer_prefix_def strip_sign_def is_ws_def is_digit_def upstream_duration
    parseInt10_samples
  note th = unparseable_duration_NaN
  have w1: "onRequest (multipart_request ?form1) (env_with None) offline = ?job NaN"
    using th[where d = "''ten''" and g = small_png, OF s p(1) i(1) l]
    by (simp add: ev)
  have w2: "onRequest (multipart_request ?form2) (env_with None) offline = ?job (Num 5)"
    using th[where d = "''ten''" and g = small_png, OF s p(2) i(2) l]
    by (simp add: ev)
  have w3: "onRequest (multipart_request (duration_form (JStr ''10 seconds''))) (env_with None) offline
              = ?job (parseInt10 ''10 seconds'')"
    "parseInt10 ''10 seconds'' \<noteq> NaN"
    using th[where d = "''10 seconds''" and g = small_png
               and form = "duration_form (JStr ''10 seconds'')", OF s f l]
    by (simp_all add: ev)
  have w4: "map (\<lambda>c. map_option (\<lambda>p. get_prop p ''duration'') (payload c))
            (upstream (onRequest (multipart_request (duration_form (JStr ''ten'')))
                         (env_with None) offline)) = [Some JNull]"
    using th[where d = "''ten''" and g = small_png and form = "duration_form (JStr ''ten'')",
             OF s f l]
    by (simp add: ev)
  have w5: "map (\<lambda>c. map_option (\<lambda>p. get_prop p ''duration'') (payload c))
            (upstream (onRequest (multipart_request (duration_form (JStr [])))
                         (env_with None) offline)) = [Some (JNum (Num 5))]"
    using th[where d = "''10''" and g = small_png and form = "duration_form (JStr [])",
             OF s f l]
    by (simp add: ev)
  have w6: "map (\<lambda>c. map_option (\<lambda>p. get_prop p ''duration'') (payload c))
            (upstream (onRequest (multipart_request (duration_form (JStr ''10'')))
                         (env_with None) offline)) = [Some (JNum (Num 10))]"
    using th[where d = "''10''" and g = small_png and form = "duration_form (JStr ''10'')",
             OF s f l]
    by (simp add: ev)
  have w7: "map (\<lambda>c. map_option (\<lambda>p. get_prop p ''duration'') (payload c))
            (upstream (onRequest (multipart_request (duration_form (JStr ''-3'')))
                         (env_with None) offline)) = [Some (JNum (Num (- 3)))]"
    using th[where d = "''-3''" and g = small_png and form = "duration_form (JStr ''-3'')",
             OF s f l]
    by (simp add: ev)
  have w8: "map (\<lambda>c. map_option (\<lambda>p. get_prop p ''duration'') (payload c))
            (upstream (onRequest (multipart_request (duration_form (JStr [CHR 0xA0, CHR ''7'', CHR ''s''])))
                         (env_with None) offline)) = [Some (JNum (Num 7))]"
    using th[where d = "[CHR 0xA0, CHR ''7'', CHR ''s'']" and g = small_png
               and form = "duration_form (JStr [CHR 0xA0, CHR ''7'', CHR ''s''])", OF s f l]
    by (simp add: ev)
  have w9: "onRequest (multipart_request (duration_form (JFile small_png))) (env_with None) offline
              = ?job NaN"
    using th[where d = "''10''" and g = small_png and form = "duration_form (JFile small_png)",
             OF s f l]
    by (simp add: ev)
  show ?thesis
    using w1 w2 w3 w4 w5 w6 w7 w8 w9 by simp
qed

text \<open>Every submission call carries the seed computed from the one value of
  \<^verbatim>\<open>Math.random()\<close>; a status read submits nothing.\<close>

lemma startImageToVideoJob_seed:
  "c \<in> set (calls (startImageToVideoJob i p dur r n e w)) \<Longrightarrow>
     seed_sent c = Some (JSON_stringify (JNum (random_seed (random w))))"
  by (auto simp: startImageToVideoJob_def Let_def thrown_def seed_sent_def split: sum.splits if_splits)

lemma generateImage_seed:
  "c \<in> set (calls (generateImage b e w)) \<Longrightarrow>
     seed_sent c = Some (JSON_stringify (JNum (random_seed (random w))))"
  by (auto simp: generateImage_def Let_def thrown_def seed_sent_def split: sum.splits if_splits)

lemma status_action_no_submission:
  "c \<in> set (calls (status_action b e w)) \<Longrightarrow> \<not> is_submission c"
  by (auto simp: status_action_def Let_def thrown_def is_submission_def split: sum.splits if_splits)

lemma status_action_part_000_no_submission:
  "c \<in> set (calls (status_action_part_000 b e w)) \<Longrightarrow> \<not> is_submission c"
  by (auto simp: status_action_part_000_def Let_def thrown_def is_submission_def split: sum.splits if_splits)

lemma multipart_submit_part_000_seed:
  "c \<in> set (calls (multipart_submit_part_000 form e w)) \<Longrightarrow>
     seed_sent c = Some (JSON_stringify (JNum (random_seed (random w))))"
  by (auto simp: multipart_submit_part_000_def Let_def thrown_def seed_sent_def
        split: sum.splits if_splits jsval.splits)

lemma try_block_seed:
  "c \<in> set (calls (try_block req e w)) \<Longrightarrow> is_submission c \<Longrightarrow>
     seed_sent c = Some (JSON_stringify (JNum (random_seed (random w))))"
  by (auto simp: try_block_def json_actions_def multipart_submit_def startVideoFromUrl_def Let_def thrown_def
        dest: startImageToVideoJob_seed generateImage_seed status_action_no_submission
        split: sum.splits if_splits jsval.splits)

lemma try_block_part_000_seed:
  "c \<in> set (calls (try_block_part_000 req e w)) \<Longrightarrow> is_submission c \<Longrightarrow>
     seed_sent c = Some (JSON_stringify (JNum (random_seed (random w))))"
  by (auto simp: try_block_part_000_def json_actions_part_000_def Let_def thrown_def
        dest: multipart_submit_part_000_seed status_action_part_000_no_submission
        split: sum.splits if_splits)

lemma upstream_seed:
  "c \<in> set (upstream (onRequest req e w)) \<union> set (upstream (onRequest_part_000 req e w)) \<Longrightarrow>
   is_submission c \<Longrightarrow>
     seed_sent c = Some (JSON_stringify (JNum (random_seed (random w))))"
  by (auto simp: onRequest_def onRequest_part_000_def quiet_def caught_def
        dest: try_block_seed try_block_part_000_seed split: if_splits)

text \<open>
  The seed of a double in \<open>[0, 1)\<close>: the product with \<open>4294967295\<close> rounds to a double below
  \<open>4294967295\<close>, whose floor is at most \<open>4294967294\<close>.
\<close>

lemma random_seed_bound:
  assumes "is_double r" "0 \<le> r" "r < 1"
  shows "\<exists>k. random_seed r = Num (of_int k) \<and> 0 \<le> k \<and> k \<le> 4294967294"
proof -
  have r: "r \<le> 9007199254740991 / 9007199254740992"
    using double_below_one[OF assms] .
  have "r * 4294967295 \<le> 9007199254740991 / 9007199254740992 * 4294967295"
    using r by (simp add: mult_right_mono)
  then have hi: "r * 4294967295 \<le> 9007199252643839 / 2097152 + 1 / 9007199254740992"
    by simp
  have lo: "0 \<le> r * 4294967295" using assms(2) by simp
  obtain y where y: "to_double (r * 4294967295) = Num y" "0 \<le> y" "y \<le> 9007199252643839 / 2097152"
    using seed_product_rounding[OF lo hi] by blast
  have "y < 4294967295" using y(3) by simp
  then have "\<lfloor>y\<rfloor> < 4294967295" by (simp add: floor_less_iff)
  moreover have "0 \<le> \<lfloor>y\<rfloor>" using y(2) by simp
  ultimately show ?thesis
    by (intro exI[of _ "\<lfloor>y\<rfloor>"]) (simp add: random_seed_def js_floor_def y(1))
qed

text \<open>
  The seed at the largest value of \<^verbatim>\<open>Math.random()\<close>, and at a value where the rounding of
  the product matters: the exact product \<open>2048 - 2\<^sup>-\<^sup>5\<^sup>3\<close> rounds to \<open>2048\<close>.
\<close>

lemma seed_at_largest_double:
  "random_seed (9007199254740991 / 9007199254740992) = Num 4294967294"
proof -
  have x: "(9007199254740991 / 9007199254740992 :: rat) * 4294967295
           = 38685626218660930040889345 / 9007199254740992" by simp
  have i: "ilog2 \<bar>38685626218660930040889345 / 9007199254740992\<bar> = 31"
    by (simp add: ilog2_def floor_rat_numeral bit_length.simps)
  show ?thesis
    unfolding random_seed_def x
    by (simp add: to_double_exponent[OF _ i] round_half_even_def Let_def floor_rat_numeral
          js_floor_def)
qed

lemma seed_rounds_up:
  "random_seed (4294967297 / 9007199254740992) = Num 2048"
proof -
  have x: "(4294967297 / 9007199254740992 :: rat) * 4294967295
           = 18446744073709551615 / 9007199254740992" by simp
  have i: "ilog2 \<bar>18446744073709551615 / 9007199254740992\<bar> = 10"
    by (simp add: ilog2_def floor_rat_numeral bit_length.simps)
  show ?thesis
    unfolding random_seed_def x
    by (simp add: to_double_exponent[OF _ i] round_half_even_def Let_def floor_rat_numeral
          js_floor_def)
qed

lemma seed_at_one_half: "random_seed (1 / 2) = Num 2147483647"
proof -
  have x: "(1 / 2 :: rat) * 4294967295 = 4294967295 / 2" by simp
  have i: "ilog2 \<bar>4294967295 / 2\<bar> = 30"
    by (simp add: ilog2_def floor_rat_numeral bit_length.simps)
  show ?thesis
    unfolding random_seed_def x
    by (simp add: to_double_exponent[OF _ i] round_half_even_def Let_def floor_rat_numeral
          js_floor_def)
qed

text \<open>\<open>1/2\<close> and \<open>1 - 2\<^sup>-\<^sup>5\<^sup>3\<close> are doubles.\<close>

lemma sample_doubles:
  "is_double (1 / 2)"
  "is_double (9007199254740991 / 9007199254740992)"
  "is_double (4294967297 / 9007199254740992)"
proof -
  have i: "ilog2 \<bar>1 / 2\<bar> = - 1"
    by (simp add: ilog2_def floor_rat_numeral ceiling_rat_numeral bit_length.simps)
  show "is_double (1 / 2)"
    unfolding is_double_def
    by (simp add: to_double_exponent[OF _ i] round_half_even_def Let_def floor_rat_numeral)
  have j: "ilog2 \<bar>9007199254740991 / 9007199254740992\<bar> = - 1"
    by (simp add: ilog2_def floor_rat_numeral ceiling_rat_numeral bit_length.simps)
  show "is_double (9007199254740991 / 9007199254740992)"
    unfolding is_double_def
    by (simp add: to_double_exponent[OF _ j] round_half_even_def Let_def floor_rat_numeral)
  have k: "ilog2 \<bar>4294967297 / 9007199254740992\<bar> = - 21"
    by (simp add: ilog2_def floor_rat_numeral ceiling_rat_numeral bit_length.simps)
  show "is_double (4294967297 / 9007199254740992)"
    unfolding is_double_def
    by (simp add: to_double_exponent[OF _ k] round_half_even_def Let_def floor_rat_numeral)
qed

text \<open>
  \<^bold>\<open>Claim C8.\<close> The seed in the body of every \<^verbatim>\<open>text_to_image\<close> and \<^verbatim>\<open>image_to_video\<close>
  call, in both handlers, is \<^verbatim>\<open>Math.floor(Math.random() * 4294967295)\<close>, the product rounded
  to a double before the floor. \<^verbatim>\<open>Math.random()\<close> is a double in \<open>[0, 1)\<close>, so the seed is an
  integer of \<open>[0, 4294967294]\<close>: \<open>4294967295\<close>, the largest 32-bit unsigned integer, is never
  drawn. The bound is attained at the largest value of \<^verbatim>\<open>Math.random()\<close>, \<open>1 - 2\<^sup>-\<^sup>5\<^sup>3\<close>, and
  the seed is \<open>0\<close> at \<open>0\<close>.
\<close>

theorem random_seed_range:
  "(\<forall>c \<in> set (upstream (onRequest req e w)) \<union> set (upstream (onRequest_part_000 req e w)).
        is_submission c \<longrightarrow> seed_sent c = Some (JSON_stringify (JNum (random_seed (random w)))))
   \<and> (is_double r \<and> 0 \<le> r \<and> r < 1 \<longrightarrow>
        (\<exists>k. random_seed r = Num (rat_of_int k) \<and> 0 \<le> k \<and> k \<le> 4294967294))
   \<and> is_double (9007199254740991 / 9007199254740992)
   \<and> random_seed (9007199254740991 / 9007199254740992) = Num 4294967294
   \<and> random_seed 0 = Num 0"
proof -
  have z: "random_seed 0 = Num 0"
    by (simp add: random_seed_def to_double_def js_floor_def)
  show ?thesis
    using upstream_seed random_seed_bound sample_doubles(2) seed_at_largest_double z by blast
qed

theorem random_seed_range_witness:
  "map seed_sent (upstream (onRequest (json_request generate_body) (env_with None)
                              (upstream_ok (task ''PENDING'' None None))))
     = [Some (JNum (Num 2147483647))]
   \<and> is_double (1 / 2)
   \<and> (\<exists>k. random_seed (1 / 2) = Num (rat_of_int k) \<and> 0 \<le> k \<and> k \<le> 4294967294)
   \<and> random_seed (9007199254740991 / 9007199254740992) = Num 4294967294"
proof -
  note h = seed_at_one_half
  have u: "upstream (onRequest (json_request generate_body) (env_with None)
                       (upstream_ok (task ''PENDING'' None None)))
           = [\<lparr>endpoint = Text_to_image, verb = ''POST'', authorization = ''Bearer key_123'',
                payload = Some (JObj [(''model'', JStr ''gen4_image''),
                                      (''promptText'', JStr ''a red fox''),
                                      (''ratio'', JStr ''1280:720''),
                                      (''seed'', JNum (Num 2147483647))])\<rparr>]"
    by (simp add: json_post_ai[OF sample_json_post sample_bodies(1)]
          json_actions_known[OF sample_bodies(6)] caught_def generateImage_def Let_def
          sample_upstream_ok sample_task sample_bodies sample_generate js_or_def h)
  show ?thesis
    using random_seed_range
            [of "json_request generate_body" "env_with None"
                "upstream_ok (task ''PENDING'' None None)" "1 / 2"]
    by (simp add: u seed_sent_def is_submission_def sample_generate sample_doubles(1))
qed

subsection \<open>The shape of the responses\<close>

text \<open>Whatever the \<^verbatim>\<open>try\<close> block returns was built by \<^verbatim>\<open>jsonResponse\<close> with status 200.\<close>

lemma startImageToVideoJob_returns:
  "result (startImageToVideoJob i p dur r n e w) = Inr x \<Longrightarrow> \<exists>d. x = jsonResponse d 200"
  by (auto simp: startImageToVideoJob_def Let_def thrown_def split: sum.splits if_splits)

lemma generateImage_returns:
  "result (generateImage b e w) = Inr x \<Longrightarrow> \<exists>d. x = jsonResponse d 200"
  by (auto simp: generateImage_def Let_def thrown_def split: sum.splits if_splits)

lemma startVideoFromUrl_returns:
  "result (startVideoFromUrl b e w) = Inr x \<Longrightarrow> \<exists>d. x = jsonResponse d 200"
  by (auto simp: startVideoFromUrl_def Let_def thrown_def dest: startImageToVideoJob_returns split: if_splits)

lemma status_action_returns:
  "result (status_action b e w) = Inr x \<Longrightarrow> \<exists>d. x = jsonResponse d 200"
  by (auto simp: status_action_def Let_def thrown_def split: sum.splits if_splits)

lemma json_actions_returns:
  "result (json_actions b e w) = Inr x \<Longrightarrow> \<exists>d. x = jsonResponse d 200"
  by (auto simp: json_actions_def Let_def thrown_def
        dest: generateImage_returns startVideoFromUrl_returns status_action_returns split: if_splits)

lemma multipart_submit_returns:
  "result (multipart_submit form e w) = Inr x \<Longrightarrow> \<exists>d. x = jsonResponse d 200"
  by (auto simp: multipart_submit_def Let_def thrown_def
        dest: startImageToVideoJob_returns split: if_splits jsval.splits)

lemma try_block_returns:
  "result (try_block req e w) = Inr x \<Longrightarrow> \<exists>d. x = jsonResponse d 200"
  by (auto simp: try_block_def Let_def thrown_def
        dest: multipart_submit_returns json_actions_returns split: if_splits sum.splits)

lemma multipart_submit_part_000_returns:
  "result (multipart_submit_part_000 form e w) = Inr x \<Longrightarrow> \<exists>d. x = jsonResponse d 200"
  by (auto simp: multipart_submit_part_000_def Let_def thrown_def split: if_splits jsval.splits sum.splits)

lemma status_action_part_000_returns:
  "result (status_action_part_000 b e w) = Inr x \<Longrightarrow> \<exists>d. x = jsonResponse d 200"
  by (auto simp: status_action_part_000_def Let_def thrown_def split: sum.splits if_splits)

lemma try_block_part_000_returns:
  "result (try_block_part_000 req e w) = Inr x \<Longrightarrow> \<exists>d. x = jsonResponse d 200"
  by (auto simp: try_block_part_000_def json_actions_part_000_def Let_def thrown_def
        dest: multipart_submit_part_000_returns status_action_part_000_returns split: if_splits sum.splits)

text \<open>
  \<^bold>\<open>Claim C3\<close>, as amended. For a \<^verbatim>\<open>POST\<close> with the credential configured, whatever its
  content type, the response comes from \<^verbatim>\<open>jsonResponse\<close>: a JSON body declared as
  \<^verbatim>\<open>application/json\<close> with \<^verbatim>\<open>Access-Control-Allow-Origin: *\<close>; every error thrown while the
  request is processed is answered by \<^verbatim>\<open>{success: false, error: message}\<close> with HTTP 500, and
  every response returned without a throw has HTTP 200. The sibling handler answers a missing
  credential the same way. An \<^verbatim>\<open>OPTIONS\<close> request gets the preflight response (no body, with
  the cross-origin header), any other method the plain text \<^verbatim>\<open>Method not allowed\<close> without
  headers. Both handlers.
\<close>

theorem post_replies_json_cors:
  "(req_method req = ''POST'' \<and> \<not> key_missing e \<longrightarrow>
      json_cors (reply (onRequest req e w))
      \<and> (case result (try_block req e w) of
            Inl msg \<Rightarrow> reply (onRequest req e w)
                        = jsonResponse (JObj [(''success'', JBool False), (''error'', JStr msg)]) 500
          | Inr r \<Rightarrow> reply (onRequest req e w) = r \<and> res_status r = 200)
      \<and> json_cors (reply (onRequest_part_000 req e w))
      \<and> (case result (try_block_part_000 req e w) of
            Inl msg \<Rightarrow> reply (onRequest_part_000 req e w)
                        = jsonResponse (JObj [(''success'', JBool False), (''error'', JStr msg)]) 500
          | Inr r \<Rightarrow> reply (onRequest_part_000 req e w) = r \<and> res_status r = 200))
   \<and> (req_method req = ''POST'' \<and> key_missing e \<longrightarrow>
        reply (onRequest_part_000 req e w)
          = jsonResponse (JObj [(''success'', JBool False), (''error'', JStr key_error_msg_part_000)]) 500)
   \<and> (req_method req = ''OPTIONS'' \<longrightarrow>
        reply (onRequest req e w) = preflight \<and> reply (onRequest_part_000 req e w) = preflight)
   \<and> (req_method req \<noteq> ''OPTIONS'' \<and> req_method req \<noteq> ''POST'' \<longrightarrow>
        reply (onRequest req e w) = method_not_allowed
        \<and> reply (onRequest_part_000 req e w) = method_not_allowed)
   \<and> res_body preflight = No_body
   \<and> map_of (res_headers preflight) ''Access-Control-Allow-Origin'' = Some ''*''
   \<and> res_body method_not_allowed = Text ''Method not allowed''
   \<and> res_headers method_not_allowed = []"
proof -
  have ai: "json_cors (reply (caught (try_block req e w)))
      \<and> (case result (try_block req e w) of
            Inl msg \<Rightarrow> reply (caught (try_block req e w))
                        = jsonResponse (JObj [(''success'', JBool False), (''error'', JStr msg)]) 500
          | Inr r \<Rightarrow> reply (caught (try_block req e w)) = r \<and> res_status r = 200)"
  proof (cases "result (try_block req e w)")
    case (Inl msg)
    then show ?thesis by (simp add: caught_reply json_cors_jsonResponse)
  next
    case (Inr r)
    then obtain d where "r = jsonResponse d 200" using try_block_returns by blast
    with Inr show ?thesis by (simp add: caught_reply json_cors_jsonResponse jsonResponse_status)
  qed
  have sib: "json_cors (reply (caught (try_block_part_000 req e w)))
      \<and> (case result (try_block_part_000 req e w) of
            Inl msg \<Rightarrow> reply (caught (try_block_part_000 req e w))
                        = jsonResponse (JObj [(''success'', JBool False), (''error'', JStr msg)]) 500
          | Inr r \<Rightarrow> reply (caught (try_block_part_000 req e w)) = r \<and> res_status r = 200)"
  proof (cases "result (try_block_part_000 req e w)")
    case (Inl msg)
    then show ?thesis by (simp add: caught_reply json_cors_jsonResponse)
  next
    case (Inr r)
    then obtain d where "r = jsonResponse d 200" using try_block_part_000_returns by blast
    with Inr show ?thesis by (simp add: caught_reply json_cors_jsonResponse jsonResponse_status)
  qed
  have frame: "req_method req = ''POST'' \<and> \<not> key_missing e \<longrightarrow>
      onRequest req e w = caught (try_block req e w)
      \<and> onRequest_part_000 req e w = caught (try_block_part_000 req e w)"
    by (simp add: onRequest_def onRequest_part_000_def)
  have rest: "(req_method req = ''POST'' \<and> key_missing e \<longrightarrow>
        reply (onRequest_part_000 req e w)
          = jsonResponse (JObj [(''success'', JBool False), (''error'', JStr key_error_msg_part_000)]) 500)
   \<and> (req_method req = ''OPTIONS'' \<longrightarrow>
        reply (onRequest req e w) = preflight \<and> reply (onRequest_part_000 req e w) = preflight)
   \<and> (req_method req \<noteq> ''OPTIONS'' \<and> req_method req \<noteq> ''POST'' \<longrightarrow>
        reply (onRequest req e w) = method_not_allowed
        \<and> reply (onRequest_part_000 req e w) = method_not_allowed)"
    by (simp add: onRequest_def onRequest_part_000_def quiet_def)
  have fixed: "res_body preflight = No_body
   \<and> map_of (res_headers preflight) ''Access-Control-Allow-Origin'' = Some ''*''
   \<and> res_body method_not_allowed = Text ''Method not allowed''
   \<and> res_headers method_not_allowed = []"
    by (simp add: preflight_def method_not_allowed_def)
  show ?thesis
    using ai sib frame rest fixed by presburger
qed

theorem post_replies_json_cors_witness:
  "json_cors (reply (onRequest (json_request status_body) (env_with None) offline))
   \<and> reply (onRequest (json_request status_body) (env_with None) offline)
       = jsonResponse (JObj [(''success'', JBool False), (''error'', JStr ''fetch failed'')]) 500
   \<and> reply (onRequest (bare_request ''OPTIONS'') (env_with None) offline) = preflight
   \<and> reply (onRequest (bare_request ''GET'') (env_with None) offline) = method_not_allowed"
proof -
  have r: "result (try_block (json_request status_body) (env_with None) offline) = Inl ''fetch failed''"
    by (simp add: try_block_def json_request_def header_or_empty_def json_actions_def status_body_def
          status_action_def offline_def thrown_def)
  have p: "req_method (json_request status_body) = ''POST'' \<and> \<not> key_missing (env_with None)"
    by (simp add: json_request_def env_with_def key_missing_def)
  have m: "req_method (bare_request ''OPTIONS'') = ''OPTIONS''" "req_method (bare_request ''GET'') = ''GET''"
    by (simp_all add: bare_request_def)
  show ?thesis
    using post_replies_json_cors[of "json_request status_body" "env_with None" offline]
          post_replies_json_cors[of "bare_request ''OPTIONS''" "env_with None" offline]
          post_replies_json_cors[of "bare_request ''GET''" "env_with None" offline]
    by (simp add: r p m json_cors_jsonResponse)
qed

text \<open>A \<^verbatim>\<open>GET\<close> request: HTTP 405, a plain text body, no cross-origin header.\<close>

theorem get_request_plain_text_no_cors:
  "res_body (reply (onRequest (bare_request ''GET'') (env_with None) offline)) = Text ''Method not allowed''
   \<and> map_of (res_headers (reply (onRequest (bare_request ''GET'') (env_with None) offline)))
         ''Access-Control-Allow-Origin'' = None
   \<and> res_status (reply (onRequest (bare_request ''GET'') (env_with None) offline)) = 405"
  by (simp add: onRequest_def bare_request_def quiet_def method_not_allowed_def)

section \<open>Properties of the polling controller\<close>

lemma run_append: "run s (xs @ ys) = run (run s xs) ys"
  by (simp add: run_def)

lemma run_Cons: "run s (x # xs) = run (step s x) xs"
  by (simp add: run_def)

lemma run_Nil: "run s [] = s"
  by (simp add: run_def)

text \<open>With no live timer, ticks do nothing.\<close>

lemma ticks_after_stop: "timers s = [] \<Longrightarrow> run s (map Tick ids) = s"
  by (induction ids) (simp_all add: run_Nil run_Cons on_tick_def)

text \<open>One tick of the only live timer, the one the ref holds, and its answer.\<close>

lemma tick_then_non_terminal:
  assumes "timers s = [(i, taskId)]" "pollIntervalRef s = Some i" "non_terminal r"
  shows "timers (step (step s (Tick i)) (Answer r)) = [(i, taskId)]"
    and "pollIntervalRef (step (step s (Tick i)) (Answer r)) = Some i"
    and "requests (step (step s (Tick i)) (Answer r)) = requests s @ [taskId]"
    and "in_flight (step (step s (Tick i)) (Answer r)) = in_flight s"
    and "error (step (step s (Tick i)) (Answer r)) = error s"
  using assms
  by (auto simp: on_tick_def on_reply_def non_terminal_def Let_def split: sum.splits)

lemma tick_then_succeeded:
  assumes "timers s = [(i, taskId)]" "pollIntervalRef s = Some i" "succeeded_with u r"
  shows "timers (step (step s (Tick i)) (Answer r)) = []"
    and "requests (step (step s (Tick i)) (Answer r)) = requests s @ [taskId]"
    and "modifiedImageUrl (step (step s (Tick i)) (Answer r)) = Some u"
    and "\<not> isGenerating (step (step s (Tick i)) (Answer r))"
    and "status (step (step s (Tick i)) (Answer r)) = ''Image generation completed!''"
    and "error (step (step s (Tick i)) (Answer r)) = error s"
    and "in_flight (step (step s (Tick i)) (Answer r)) = in_flight s"
  using assms
  by (auto simp: on_tick_def on_reply_def succeeded_with_def clearInterval_ref_def Let_def
        split: sum.splits)

text \<open>A \<^verbatim>\<open>SUCCEEDED\<close> answer without \<^verbatim>\<open>imageUrl\<close> (the client reads no other URL field, so also
  one that carries \<^verbatim>\<open>videoUrl\<close>) clears the timer of the ref and ends in the error state.\<close>

lemma succeeded_without_imageUrl_fails:
  assumes "reply_ok rep" "sd_success (reply_data rep)"
    and "sd_status (reply_data rep) = Some ''SUCCEEDED''" "sd_imageUrl (reply_data rep) = None"
    and "pollIntervalRef s = Some i"
  shows "error (on_reply (Inr rep) s) = ''Task succeeded but no image URL was returned.''"
    and "i \<notin> fst ` set (timers (on_reply (Inr rep) s))"
    and "\<not> isGenerating (on_reply (Inr rep) s)"
    and "modifiedImageUrl (on_reply (Inr rep) s) = modifiedImageUrl s"
  using assms by (auto simp: on_reply_def Let_def poll_failed_def clearInterval_ref_def)

text \<open>
  A timer that is live when \<^verbatim>\<open>pollForStatus\<close> runs again is not cleared by it, nor by the
  \<^verbatim>\<open>clearInterval\<close> of the later run, which clears the timer of the ref only: after a second
  job has ended with its URL, the timer of the first job still sends a request at each of its
  ticks.
\<close>

lemma earlier_timer_keeps_polling:
  "requests (run (pollForStatus (JStr ''task-2'')
                    (resetState (pollForStatus (JStr ''task-1'') job_started)))
      [Tick 2, Answer succeeded_reply, Tick 1, Tick 1])
     = [JStr ''task-2'', JStr ''task-1'', JStr ''task-1'']
   \<and> timers (run (pollForStatus (JStr ''task-2'')
                    (resetState (pollForStatus (JStr ''task-1'') job_started)))
      [Tick 2, Answer succeeded_reply, Tick 1, Tick 1])
     = [(1, JStr ''task-1'')]"
  by (simp add: run_def pollForStatus_def resetState_def job_started_def on_tick_def on_reply_def
        succeeded_reply_def clearInterval_ref_def Let_def)

text \<open>
  \<^bold>\<open>Claim C7\<close>, as amended. A polling run that starts when no earlier polling timer is live
  and in which every status answer arrives before the next tick of the interval timer, the
  first three answers non-terminal and the fourth \<^verbatim>\<open>SUCCEEDED\<close> with an \<^verbatim>\<open>imageUrl\<close>: the
  controller has sent exactly four status requests, one per tick, it exposes the URL with the
  status of completion, it is no longer generating, and no timer is live any more, so that no
  later tick, of whatever timer id, sends a fifth request.
\<close>

theorem polling_four_requests_then_stop:
  assumes "timers s0 = []"
    and "non_terminal r1" "non_terminal r2" "non_terminal r3" "succeeded_with u r4"
  shows "requests (run (pollForStatus taskId s0)
                    ([Tick (next_timer s0), Answer r1, Tick (next_timer s0), Answer r2,
                      Tick (next_timer s0), Answer r3, Tick (next_timer s0), Answer r4]
                     @ map Tick later))
           = requests s0 @ [taskId, taskId, taskId, taskId]
         \<and> modifiedImageUrl (run (pollForStatus taskId s0)
                    ([Tick (next_timer s0), Answer r1, Tick (next_timer s0), Answer r2,
                      Tick (next_timer s0), Answer r3, Tick (next_timer s0), Answer r4]
                     @ map Tick later))
           = Some u
         \<and> status (run (pollForStatus taskId s0)
                    ([Tick (next_timer s0), Answer r1, Tick (next_timer s0), Answer r2,
                      Tick (next_timer s0), Answer r3, Tick (next_timer s0), Answer r4]
                     @ map Tick later))
           = ''Image generation completed!''
         \<and> timers (run (pollForStatus taskId s0)
                    ([Tick (next_timer s0), Answer r1, Tick (next_timer s0), Answer r2,
                      Tick (next_timer s0), Answer r3, Tick (next_timer s0), Answer r4]
                     @ map Tick later))
           = []
         \<and> \<not> isGenerating (run (pollForStatus taskId s0)
                    ([Tick (next_timer s0), Answer r1, Tick (next_timer s0), Answer r2,
                      Tick (next_timer s0), Answer r3, Tick (next_timer s0), Answer r4]
                     @ map Tick later))
         \<and> error (run (pollForStatus taskId s0)
                    ([Tick (next_timer s0), Answer r1, Tick (next_timer s0), Answer r2,
                      Tick (next_timer s0), Answer r3, Tick (next_timer s0), Answer r4]
                     @ map Tick later))
           = error s0"
proof -
  let ?i = "next_timer s0"
  let ?s = "pollForStatus taskId s0"
  let ?s1 = "step (step ?s (Tick ?i)) (Answer r1)"
  let ?s2 = "step (step ?s1 (Tick ?i)) (Answer r2)"
  let ?s3 = "step (step ?s2 (Tick ?i)) (Answer r3)"
  let ?s4 = "step (step ?s3 (Tick ?i)) (Answer r4)"
  have s: "timers ?s = [(?i, taskId)]" "pollIntervalRef ?s = Some ?i"
    "requests ?s = requests s0" "error ?s = error s0"
    using assms(1) by (simp_all add: pollForStatus_def)
  note a1 = tick_then_non_terminal[OF s(1) s(2) assms(2)]
  note a2 = tick_then_non_terminal[OF a1(1) a1(2) assms(3)]
  note a3 = tick_then_non_terminal[OF a2(1) a2(2) assms(4)]
  note a4 = tick_then_succeeded[OF a3(1) a3(2) assms(5)]
  have e: "run ?s ([Tick ?i, Answer r1, Tick ?i, Answer r2, Tick ?i, Answer r3, Tick ?i, Answer r4]
                   @ map Tick later) = ?s4"
    using ticks_after_stop[OF a4(1)] by (simp add: run_append run_Cons run_Nil)
  show ?thesis
    unfolding e using s a1 a2 a3 a4 by simp
qed

theorem polling_four_requests_then_stop_witness:
  "timers job_started = []
   \<and> requests (run (pollForStatus (JStr ''task-1'') job_started)
      [Tick 1, Answer running_reply, Tick 1, Answer running_reply, Tick 1, Answer running_reply,
       Tick 1, Answer succeeded_reply, Tick 1, Tick 1])
     = [JStr ''task-1'', JStr ''task-1'', JStr ''task-1'', JStr ''task-1'']
   \<and> modifiedImageUrl (run (pollForStatus (JStr ''task-1'') job_started)
      [Tick 1, Answer running_reply, Tick 1, Answer running_reply, Tick 1, Answer running_reply,
       Tick 1, Answer succeeded_reply, Tick 1, Tick 1]) = Some ''https://x/y.png''
   \<and> timers (run (pollForStatus (JStr ''task-1'') job_started)
      [Tick 1, Answer running_reply, Tick 1, Answer running_reply, Tick 1, Answer running_reply,
       Tick 1, Answer succeeded_reply, Tick 1, Tick 1]) = []"
proof -
  have t: "timers job_started = []" "next_timer job_started = 1"
    by (simp_all add: job_started_def)
  have r: "non_terminal running_reply" by (simp add: non_terminal_def running_reply_def)
  have u: "succeeded_with ''https://x/y.png'' succeeded_reply"
    by (simp add: succeeded_with_def succeeded_reply_def)
  show ?thesis
    using polling_four_requests_then_stop[OF t(1) r r r u, of "JStr ''task-1''" "[1, 1]"]
    by (simp add: t job_started_def)
qed

text \<open>
  When the answers are slower than the interval, the timer keeps ticking while requests are
  in flight: five ticks before the first answer send five requests, although the fourth
  answer is the terminal one.
\<close>

theorem slow_answers_five_requests:
  "requests (run (pollForStatus (JStr ''task-1'') job_started)
      [Tick 1, Tick 1, Tick 1, Tick 1, Tick 1, Answer running_reply, Answer running_reply,
       Answer running_reply, Answer succeeded_reply])
     = [JStr ''task-1'', JStr ''task-1'', JStr ''task-1'', JStr ''task-1'', JStr ''task-1'']
   \<and> modifiedImageUrl (run (pollForStatus (JStr ''task-1'') job_started)
      [Tick 1, Tick 1, Tick 1, Tick 1, Tick 1, Answer running_reply, Answer running_reply,
       Answer running_reply, Answer succeeded_reply]) = Some ''https://x/y.png''"
  by (simp add: run_def pollForStatus_def job_started_def on_tick_def on_reply_def running_reply_def
        succeeded_reply_def clearInterval_ref_def Let_def)

end
